theory Spec2Isabelle
  imports Complex_Main
begin

section \<open>JavaScript strings and values\<close>

text \<open>
  Texts are sequences of code units; the model covers the code units 0..255, so a text is
  a \<^typ>\<open>string\<close>. The string methods used by the agent are written out below with the
  behaviour ECMAScript gives them on such texts.
\<close>

text \<open>\<^verbatim>\<open>s.startsWith(p)\<close>\<close>

fun starts_with :: "string \<Rightarrow> string \<Rightarrow> bool" where
  "starts_with s [] = True"
| "starts_with [] (p # ps) = False"
| "starts_with (c # cs) (p # ps) = (if c = p then starts_with cs ps else False)"

text \<open>\<^verbatim>\<open>s.includes(p)\<close>: \<open>p\<close> occurs in \<open>s\<close> as a contiguous run.\<close>

fun includes_str :: "string \<Rightarrow> string \<Rightarrow> bool" where
  "includes_str [] p = starts_with [] p"
| "includes_str (c # cs) p = (if starts_with (c # cs) p then True else includes_str cs p)"

text \<open>
  \<^verbatim>\<open>s.toLowerCase()\<close> on code units below 256: the letters A-Z and the Latin-1 capitals
  (0xC0-0xDE without the multiplication sign 0xD7) move up by 32, which sets bit 5.
\<close>

definition toLower_char :: "char \<Rightarrow> char" where
  "toLower_char c =
     (let n = (of_char c :: nat) in
      if (65 \<le> n \<and> n \<le> 90) \<or> (192 \<le> n \<and> n \<le> 214) \<or> (216 \<le> n \<and> n \<le> 222)
      then (case c of Char b0 b1 b2 b3 b4 b5 b6 b7 \<Rightarrow> Char b0 b1 b2 b3 b4 True b6 b7)
      else c)"

definition toLowerCase :: "string \<Rightarrow> string" where
  "toLowerCase s = map toLower_char s"

text \<open>
  White space as \<^verbatim>\<open>\s\<close> and \<^verbatim>\<open>trim\<close> see it, below 256: tab, line feed, vertical tab,
  form feed, carriage return, space and the no-break space.
\<close>

definition is_space :: "char \<Rightarrow> bool" where
  "is_space c = (let n = (of_char c :: nat) in (9 \<le> n \<and> n \<le> 13) \<or> n = 32 \<or> n = 160)"

definition trim :: "string \<Rightarrow> string" where
  "trim s = rev (dropWhile is_space (rev (dropWhile is_space s)))"

text \<open>\<^verbatim>\<open>s.replace(pat, rep)\<close> with a string pattern: the first occurrence only.\<close>

fun replace_first :: "string \<Rightarrow> string \<Rightarrow> string \<Rightarrow> string" where
  "replace_first pat rep [] = (if pat = [] then rep else [])"
| "replace_first pat rep (c # cs) =
     (if starts_with (c # cs) pat then rep @ drop (length pat) (c # cs)
      else c # replace_first pat rep cs)"

text \<open>\<^verbatim>\<open>xs.splice(start, count, ...items)\<close>, the array after the call.\<close>

definition splice :: "nat \<Rightarrow> nat \<Rightarrow> 'a list \<Rightarrow> 'a list \<Rightarrow> 'a list" where
  "splice start cnt items xs = take start xs @ items @ drop (start + cnt) xs"

text \<open>\<^verbatim>\<open>xs.slice(-n)\<close>: the last \<open>n\<close> elements, all of them when there are fewer.\<close>

definition slice_last :: "nat \<Rightarrow> 'a list \<Rightarrow> 'a list" where
  "slice_last n xs = drop (length xs - n) xs"

text \<open>
  A value as \<^verbatim>\<open>JSON.parse\<close> produces it. Numbers are kept exact (a rational); the
  rounding of IEEE doubles is outside the model. An object keeps its members in source
  order, duplicates included. \<^verbatim>\<open>undefined\<close> is \<open>None\<close> of an option.
\<close>

datatype json =
    JNull
  | JBool bool
  | JNumber rat
  | JString string
  | JArray "json list"
  | JObject "(string \<times> json) list"

text \<open>ToBoolean: what \<^verbatim>\<open>if (v)\<close>, \<^verbatim>\<open>v || d\<close> and \<^verbatim>\<open>v && w\<close> test.\<close>

fun truthy :: "json \<Rightarrow> bool" where
  "truthy JNull = False"
| "truthy (JBool b) = b"
| "truthy (JNumber q) = (q \<noteq> 0)"
| "truthy (JString s) = (s \<noteq> [])"
| "truthy (JArray xs) = True"
| "truthy (JObject kvs) = True"

text \<open>\<^verbatim>\<open>v || d\<close> for a possibly undefined \<open>v\<close>.\<close>

definition or_default :: "json option \<Rightarrow> json \<Rightarrow> json" where
  "or_default v d = (case v of None \<Rightarrow> d | Some x \<Rightarrow> if truthy x then x else d)"

text \<open>Truthiness of an optional string: defined and not empty.\<close>

definition truthy_str :: "string option \<Rightarrow> bool" where
  "truthy_str v = (case v of None \<Rightarrow> False | Some s \<Rightarrow> s \<noteq> [])"

section \<open>Chart data (chartGenerator.ts)\<close>

text \<open>
  The interfaces \<^verbatim>\<open>ChartData\<close> and \<^verbatim>\<open>ChartOptions\<close>. The fields the extractor fills
  hold whatever the parsed object held, so they are JSON values; optional fields are
  options.
\<close>

record dataset =
  label :: json
  data :: "json list"
  backgroundColor :: "json option"
  borderColor :: "json option"
  borderWidth :: "json option"

record ChartData =
  labels :: "json list"
  datasets :: "dataset list"

record ChartOptions =
  chartType :: json
  title :: "json option"
  width :: "nat option"
  height :: "nat option"
  watermarkPrompt :: "string option"
  backgroundImagePrompt :: "string option"
  fillColor :: "string option"
  backgroundDescription :: "string option"

text \<open>
  \<open>chartType\<close> is the field \<^verbatim>\<open>type\<close> and \<open>fillColor\<close> the field \<^verbatim>\<open>backgroundColor\<close> of
  \<^verbatim>\<open>ChartOptions\<close> (the dataset has a \<^verbatim>\<open>backgroundColor\<close> of its own).
\<close>

record ChartSpec =
  spec_data :: ChartData
  spec_options :: ChartOptions

text \<open>A dataset literal \<^verbatim>\<open>{ label, data }\<close> and an options literal \<^verbatim>\<open>{ type, title }\<close>.\<close>

definition mk_dataset :: "json \<Rightarrow> json list \<Rightarrow> dataset" where
  "mk_dataset l d =
     \<lparr>label = l, data = d, backgroundColor = None, borderColor = None, borderWidth = None\<rparr>"

definition mk_options :: "json \<Rightarrow> json option \<Rightarrow> string option \<Rightarrow> ChartOptions" where
  "mk_options t ti wp =
     \<lparr>chartType = t, title = ti, width = None, height = None, watermarkPrompt = wp,
      backgroundImagePrompt = None, fillColor = None, backgroundDescription = None\<rparr>"

text \<open>
  The validity test of the extractor (chartGenerator.ts, the \<^verbatim>\<open>if\<close> before the
  \<^verbatim>\<open>return\<close>): labels, datasets and the first dataset's data are not empty.
\<close>

definition passes_validation :: "json list \<Rightarrow> dataset list \<Rightarrow> bool" where
  "passes_validation ls dss =
     (case ls of [] \<Rightarrow> False
      | _ # _ \<Rightarrow> (case dss of [] \<Rightarrow> False
                  | d # _ \<Rightarrow> (case data d of [] \<Rightarrow> False | _ # _ \<Rightarrow> True)))"

text \<open>
  The validity invariant as the specification words it: the labels are not empty and
  some dataset has data.
\<close>

definition has_data :: "dataset list \<Rightarrow> bool" where
  "has_data dss = list_ex (\<lambda>d. data d \<noteq> []) dss"

definition valid_chart :: "ChartData \<Rightarrow> bool" where
  "valid_chart cd = (if labels cd = [] then False else has_data (datasets cd))"

subsection \<open>Background synthesis\<close>

text \<open>
  What the three drawing procedures put on the background canvas: a linear gradient with
  its two colour stops, the grid (base colour, stroke colour, pitch), or one solid fill.
\<close>

datatype background =
    GradientBackground string string
  | PatternBackground string string nat
  | ColorBackground string

definition createGradientBackground :: "string \<Rightarrow> background" where
  "createGradientBackground description =
     (if includes_str description ''blue''
      then GradientBackground ''rgba(240, 248, 255, 0.8)'' ''rgba(230, 240, 255, 0.8)''
      else if includes_str description ''green''
      then GradientBackground ''rgba(240, 255, 240, 0.8)'' ''rgba(230, 255, 230, 0.8)''
      else if includes_str description ''purple''
      then GradientBackground ''rgba(250, 245, 255, 0.8)'' ''rgba(240, 235, 255, 0.8)''
      else GradientBackground ''rgba(255, 255, 255, 0.95)'' ''rgba(248, 250, 252, 0.95)'')"

definition createPatternBackground :: "string \<Rightarrow> background" where
  "createPatternBackground description = PatternBackground ''#ffffff'' ''rgba(0, 0, 0, 0.05)'' 20"

definition createColorBackground :: "string \<Rightarrow> background" where
  "createColorBackground description =
     ColorBackground
       (if includes_str description ''blue'' then ''rgba(240, 248, 255, 0.9)''
        else if includes_str description ''green'' then ''rgba(240, 255, 240, 0.9)''
        else if includes_str description ''gray'' \<or> includes_str description ''grey''
        then ''rgba(248, 250, 252, 0.9)''
        else if includes_str description ''light'' then ''rgba(255, 255, 255, 0.95)''
        else ''#ffffff'')"

text \<open>The routing inside \<^verbatim>\<open>generateBackgroundImage\<close>, from the description on.\<close>

definition backgroundFor :: "string \<Rightarrow> background" where
  "backgroundFor description =
     (if includes_str description ''gradient'' \<or> includes_str description ''gradient''
      then createGradientBackground description
      else if includes_str description ''grid'' \<or> includes_str description ''pattern''
      then createPatternBackground description
      else createColorBackground description)"

text \<open>
  The model client: \<^verbatim>\<open>generate\<close> and \<^verbatim>\<open>chat\<close> either return the full response or throw
  (\<open>Inl\<close> the error message).
\<close>

type_synonym generate_fn = "string \<Rightarrow> string + string"

definition backgroundPrompt :: "string \<Rightarrow> string" where
  \<open>backgroundPrompt prompt =
     ''Describe a subtle, professional background image for a data chart based on: "'' @ prompt
     @ ''". \<newline>Respond with 2-3 words describing colors, patterns, or themes (e.g., "blue gradient", "light grid", "subtle texture"). \<newline>Respond with ONLY the description, no explanations.''\<close>

text \<open>
  \<^verbatim>\<open>generateBackgroundImage\<close>: the background and the description, or \<^verbatim>\<open>null\<close> when the
  model call throws.
\<close>

definition generateBackgroundImage :: "generate_fn \<Rightarrow> string \<Rightarrow> (background \<times> string) option" where
  "generateBackgroundImage gen prompt =
     (case gen (backgroundPrompt prompt) of
        Inl err \<Rightarrow> None
      | Inr response \<Rightarrow>
          (let description = toLowerCase (trim response)
           in Some (backgroundFor description, description)))"

subsection \<open>Default colours\<close>

definition defaultColors :: "string list" where
  "defaultColors =
     [''rgba(54, 162, 235, 0.8)'', ''rgba(255, 99, 132, 0.8)'', ''rgba(75, 192, 192, 0.8)'',
      ''rgba(255, 206, 86, 0.8)'', ''rgba(153, 102, 255, 0.8)'', ''rgba(255, 159, 64, 0.8)'',
      ''rgba(199, 199, 199, 0.8)'', ''rgba(83, 102, 255, 0.8)'']"

definition borderColors :: "string list" where
  "borderColors = map (replace_first ''0.8'' ''1'') defaultColors"

definition is_round :: "json \<Rightarrow> bool" where
  "is_round t = (if t = JString ''pie'' then True else t = JString ''doughnut'')"

definition colorDataset :: "json \<Rightarrow> nat \<Rightarrow> nat \<Rightarrow> dataset \<Rightarrow> dataset" where
  "colorDataset t n i ds =
     ds\<lparr>backgroundColor :=
          Some (or_default (backgroundColor ds)
                  (if is_round t then JArray (map JString (take n defaultColors))
                   else JString (defaultColors ! (i mod length defaultColors)))),
        borderColor :=
          Some (or_default (borderColor ds)
                  (if is_round t then JArray (map JString (take n borderColors))
                   else JString (borderColors ! (i mod length borderColors)))),
        borderWidth := Some (or_default (borderWidth ds) (JNumber 2))\<rparr>"

definition applyDefaultColors :: "ChartData \<Rightarrow> json \<Rightarrow> ChartData" where
  "applyDefaultColors cd t =
     cd\<lparr>datasets :=
          map (\<lambda>(i, ds). colorDataset t (length (labels cd)) i ds)
              (zip [0 ..< length (datasets cd)] (datasets cd))\<rparr>"

section \<open>Regular expressions\<close>

text \<open>
  The fragment of ECMAScript regular expressions the program uses: a sequence of literal
  runs, greedy and lazy repetitions of a character class, one capture group, and a choice
  between words. Matching backtracks as the language defines it: a term is matched against
  the input with the rest of the pattern as its continuation; a greedy repetition first
  tries one more character and falls back to stopping, a lazy one first tries to stop, a
  choice tries its alternatives from left to right.
\<close>

text \<open>
  The classes \<^verbatim>\<open>[\s\S]\<close>, \<^verbatim>\<open>\s\<close>, \<^verbatim>\<open>.\<close> (anything but a line terminator; below 256 these
  are line feed and carriage return) and \<^verbatim>\<open>[:\s]\<close>.
\<close>

datatype char_class = AnyChar | SpaceChar | DotChar | ColonSpaceChar

fun in_class :: "char_class \<Rightarrow> char \<Rightarrow> bool" where
  "in_class AnyChar c = True"
| "in_class SpaceChar c = is_space c"
| "in_class DotChar c = (if c = CHR 0x0A then False else c \<noteq> CHR 0x0D)"
| "in_class ColonSpaceChar c = (if c = CHR '':'' then True else is_space c)"

datatype regex_item =
    Lit string
  | Greedy char_class nat
  | Lazy char_class
  | GroupStart
  | GroupEnd
  | OneOf "string list" bool

text \<open>
  \<open>Greedy cl n\<close> is \<^verbatim>\<open>cl{n,}\<close> (so \<open>Greedy cl 0\<close> is \<^verbatim>\<open>cl*\<close>); \<open>Lazy cl\<close> is \<^verbatim>\<open>cl*?\<close>.
  \<open>OneOf ws e\<close> is the choice \<^verbatim>\<open>(?:w1|w2|...)\<close> between lower-case words under the flag
  \<^verbatim>\<open>i\<close>, with \<^verbatim>\<open>$\<close> (the end of the input) as one more, last alternative when \<open>e\<close> holds.
\<close>

text \<open>
  A word of the pattern matches at the head of the input without regard to case: each
  character of the input is the letter of the word or its capital.
\<close>

definition starts_with_ci :: "string \<Rightarrow> string \<Rightarrow> bool" where
  "starts_with_ci s w = (if length s < length w then False
                         else toLowerCase (take (length w) s) = w)"

fun one_of :: "string list \<Rightarrow> bool \<Rightarrow> (string \<Rightarrow> 'r option) \<Rightarrow> string \<Rightarrow> 'r option" where
  "one_of [] e k s = (if e \<and> s = [] then k s else None)"
| "one_of (w # ws) e k s =
     (if starts_with_ci s w
      then (case k (drop (length w) s) of
              Some r \<Rightarrow> Some r
            | None \<Rightarrow> one_of ws e k s)
      else one_of ws e k s)"

fun greedy_rep :: "(char \<Rightarrow> bool) \<Rightarrow> nat \<Rightarrow> (string \<Rightarrow> 'r option) \<Rightarrow> string \<Rightarrow> 'r option" where
  "greedy_rep p n k [] = (if n = 0 then k [] else None)"
| "greedy_rep p n k (c # cs) =
     (if p c
      then (case greedy_rep p (n - 1) k cs of
              Some r \<Rightarrow> Some r
            | None \<Rightarrow> if n = 0 then k (c # cs) else None)
      else if n = 0 then k (c # cs) else None)"

fun lazy_rep :: "(char \<Rightarrow> bool) \<Rightarrow> (string \<Rightarrow> 'r option) \<Rightarrow> string \<Rightarrow> 'r option" where
  "lazy_rep p k [] = k []"
| "lazy_rep p k (c # cs) =
     (case k (c # cs) of
        Some r \<Rightarrow> Some r
      | None \<Rightarrow> if p c then lazy_rep p k cs else None)"

text \<open>
  A successful match returns the input left after it and the inputs left at the start and
  at the end of the group (when the group took part).
\<close>

type_synonym match_state = "string \<times> string option \<times> string option"

primrec match_items :: "regex_item list \<Rightarrow> string \<Rightarrow> string option \<Rightarrow> string option \<Rightarrow> match_state option" where
  "match_items [] s gs ge = Some (s, gs, ge)"
| "match_items (x # xs) s gs ge =
     (case x of
        Lit l \<Rightarrow> if starts_with s l then match_items xs (drop (length l) s) gs ge else None
      | Greedy cl n \<Rightarrow> greedy_rep (in_class cl) n (\<lambda>s'. match_items xs s' gs ge) s
      | Lazy cl \<Rightarrow> lazy_rep (in_class cl) (\<lambda>s'. match_items xs s' gs ge) s
      | GroupStart \<Rightarrow> match_items xs s (Some s) ge
      | GroupEnd \<Rightarrow> match_items xs s gs (Some s)
      | OneOf ws e \<Rightarrow> one_of ws e (\<lambda>s'. match_items xs s' gs ge) s)"

text \<open>The leftmost start position at which the pattern matches.\<close>

fun regex_search :: "regex_item list \<Rightarrow> string \<Rightarrow> (string \<times> match_state) option" where
  "regex_search re [] =
     (case match_items re [] None None of None \<Rightarrow> None | Some st \<Rightarrow> Some ([], st))"
| "regex_search re (c # cs) =
     (case match_items re (c # cs) None None of
        None \<Rightarrow> regex_search re cs
      | Some st \<Rightarrow> Some (c # cs, st))"

text \<open>
  \<^verbatim>\<open>text.match(re)\<close> for a pattern without the global flag: \<^verbatim>\<open>null\<close>, or the matched text
  (element 0) and the text of group 1 (element 1, \<^verbatim>\<open>undefined\<close> without a group).
\<close>

definition between :: "string \<Rightarrow> string \<Rightarrow> string" where
  "between from rest = take (length from - length rest) from"

definition str_match :: "regex_item list \<Rightarrow> string \<Rightarrow> (string \<times> string option) option" where
  "str_match re text =
     (case regex_search re text of
        None \<Rightarrow> None
      | Some (start, rest, gs, ge) \<Rightarrow>
          Some (between start rest,
                (case gs of None \<Rightarrow> None
                 | Some a \<Rightarrow> (case ge of None \<Rightarrow> None | Some b \<Rightarrow> Some (between a b)))))"

text \<open>The four patterns of \<^verbatim>\<open>parseChartDataFromText\<close>, in the order it tries them.\<close>

definition re_json_fence :: "regex_item list" where
  "re_json_fence =
     [Lit ''```json'', Greedy SpaceChar 0, GroupStart, Lazy AnyChar, GroupEnd,
      Greedy SpaceChar 0, Lit ''```'']"

definition re_any_fence :: "regex_item list" where
  "re_any_fence =
     [Lit ''```'', Greedy SpaceChar 0, GroupStart, Lazy AnyChar, GroupEnd,
      Greedy SpaceChar 0, Lit ''```'']"

definition re_labels_datasets :: "regex_item list" where
  \<open>re_labels_datasets =
     [Lit ''{'', Greedy AnyChar 0, Lit ''"labels"'', Greedy AnyChar 0, Lit ''"datasets"'',
      Greedy AnyChar 0, Lit ''}'']\<close>

definition re_braces :: "regex_item list" where
  "re_braces = [Lit ''{'', Greedy AnyChar 20, Lit ''}'']"

section \<open>JSON.parse\<close>

text \<open>
  The JSON grammar of ECMA-404 as \<^verbatim>\<open>JSON.parse\<close> reads it. A sub-parser returns the value
  and the input left, \<open>None\<close> is the SyntaxError. The mutually recursive part carries a
  depth budget; \<open>JSON_parse\<close> starts it with more than the text can use.
\<close>

definition is_json_ws :: "char \<Rightarrow> bool" where
  "is_json_ws c = (let n = (of_char c :: nat) in n = 9 \<or> n = 10 \<or> n = 13 \<or> n = 32)"

definition skip_ws :: "string \<Rightarrow> string" where
  "skip_ws s = dropWhile is_json_ws s"

definition is_digit :: "char \<Rightarrow> bool" where
  "is_digit c = (let n = (of_char c :: nat) in 48 \<le> n \<and> n \<le> 57)"

definition digit_val :: "char \<Rightarrow> nat" where
  "digit_val c = of_char c - 48"

definition digits_val :: "string \<Rightarrow> nat" where
  "digits_val ds = foldl (\<lambda>a c. 10 * a + digit_val c) 0 ds"

definition hex_val :: "char \<Rightarrow> nat option" where
  "hex_val c =
     (let n = (of_char c :: nat) in
      if 48 \<le> n \<and> n \<le> 57 then Some (n - 48)
      else if 97 \<le> n \<and> n \<le> 102 then Some (n - 87)
      else if 65 \<le> n \<and> n \<le> 70 then Some (n - 55)
      else None)"

text \<open>The character a one-letter escape stands for.\<close>

definition unescape :: "char \<Rightarrow> char option" where
  "unescape e =
     (if e = CHR 0x22 then Some (CHR 0x22)
      else if e = CHR 0x5C then Some (CHR 0x5C)
      else if e = CHR ''/'' then Some (CHR ''/'')
      else if e = CHR ''b'' then Some (CHR 0x08)
      else if e = CHR ''f'' then Some (CHR 0x0C)
      else if e = CHR ''n'' then Some (CHR 0x0A)
      else if e = CHR ''r'' then Some (CHR 0x0D)
      else if e = CHR ''t'' then Some (CHR 0x09)
      else None)"

text \<open>
  The code unit of a \<^verbatim>\<open>\uXXXX\<close> escape. The model's alphabet ends at 0xFF: an escape that
  names a larger code unit is outside the model and is not accepted.
\<close>

definition unicode_escape :: "char \<Rightarrow> char \<Rightarrow> char \<Rightarrow> char \<Rightarrow> char option" where
  "unicode_escape h1 h2 h3 h4 =
     (case hex_val h1 of None \<Rightarrow> None | Some a \<Rightarrow>
       (case hex_val h2 of None \<Rightarrow> None | Some b \<Rightarrow>
          (case hex_val h3 of None \<Rightarrow> None | Some c \<Rightarrow>
             (case hex_val h4 of None \<Rightarrow> None | Some d \<Rightarrow>
                (if a = 0 \<and> b = 0 then Some (char_of (c * 16 + d)) else None)))))"

definition cons_fst :: "'a \<Rightarrow> ('a list \<times> 'b) option \<Rightarrow> ('a list \<times> 'b) option" where
  "cons_fst x r = (case r of None \<Rightarrow> None | Some (xs, rest) \<Rightarrow> Some (x # xs, rest))"

text \<open>The characters of a string literal, after its opening quote, up to the closing one.\<close>

fun parse_chars :: "string \<Rightarrow> (string \<times> string) option" where
  "parse_chars [] = None"
| "parse_chars (c # cs) =
     (if c = CHR 0x22 then Some ([], cs)
      else if c = CHR 0x5C then
        (case cs of
           [] \<Rightarrow> None
         | e # r \<Rightarrow>
             (if e = CHR ''u'' then
                (case r of
                   h1 # h2 # h3 # h4 # r' \<Rightarrow>
                     (case unicode_escape h1 h2 h3 h4 of
                        None \<Rightarrow> None
                      | Some ch \<Rightarrow> cons_fst ch (parse_chars r'))
                 | _ \<Rightarrow> None)
              else (case unescape e of
                      None \<Rightarrow> None
                    | Some ch \<Rightarrow> cons_fst ch (parse_chars r))))
      else if (of_char c :: nat) < 32 then None
      else cons_fst c (parse_chars cs))"

text \<open>A run of digits, at least one.\<close>

definition parse_digits :: "string \<Rightarrow> (string \<times> string) option" where
  "parse_digits s =
     (case takeWhile is_digit s of
        [] \<Rightarrow> None
      | d # ds \<Rightarrow> Some (d # ds, dropWhile is_digit s))"

text \<open>The integer part: a single 0, or digits that do not start with 0.\<close>

definition parse_int_part :: "string \<Rightarrow> (nat \<times> string) option" where
  "parse_int_part s =
     (case s of
        [] \<Rightarrow> None
      | c # r \<Rightarrow>
          if c = CHR ''0'' then Some (0, r)
          else (case parse_digits s of None \<Rightarrow> None | Some (ds, r') \<Rightarrow> Some (digits_val ds, r')))"

definition parse_frac :: "string \<Rightarrow> (rat \<times> string) option" where
  "parse_frac s =
     (case s of
        [] \<Rightarrow> Some (0, s)
      | c # r \<Rightarrow>
          if c = CHR ''.'' then
            (case parse_digits r of
               None \<Rightarrow> None
             | Some (ds, r') \<Rightarrow> Some (of_nat (digits_val ds) / 10 ^ length ds, r'))
          else Some (0, s))"

text \<open>The exponent part gives the factor the mantissa is multiplied by.\<close>

definition parse_exp :: "string \<Rightarrow> (rat \<times> string) option" where
  "parse_exp s =
     (case s of
        [] \<Rightarrow> Some (1, s)
      | c # r \<Rightarrow>
          if c = CHR ''e'' \<or> c = CHR ''E'' then
            (case r of
               [] \<Rightarrow> None
             | sg # r' \<Rightarrow>
                 if sg = CHR ''-'' then
                   (case parse_digits r' of
                      None \<Rightarrow> None
                    | Some (ds, r'') \<Rightarrow> Some (1 / 10 ^ digits_val ds, r''))
                 else
                   (case parse_digits (if sg = CHR ''+'' then r' else r) of
                      None \<Rightarrow> None
                    | Some (ds, r'') \<Rightarrow> Some (10 ^ digits_val ds, r'')))
          else Some (1, s))"

definition parse_unsigned :: "string \<Rightarrow> (rat \<times> string) option" where
  "parse_unsigned s =
     (case parse_int_part s of None \<Rightarrow> None | Some (ip, s1) \<Rightarrow>
       (case parse_frac s1 of None \<Rightarrow> None | Some (fr, s2) \<Rightarrow>
          (case parse_exp s2 of None \<Rightarrow> None | Some (ex, s3) \<Rightarrow>
             Some ((of_nat ip + fr) * ex, s3))))"

definition parse_number :: "string \<Rightarrow> (rat \<times> string) option" where
  "parse_number s =
     (case s of
        [] \<Rightarrow> None
      | c # r \<Rightarrow>
          if c = CHR ''-'' then
            (case parse_unsigned r of None \<Rightarrow> None | Some (q, r') \<Rightarrow> Some (- q, r'))
          else parse_unsigned s)"

text \<open>String, literal name or number: the values without nesting.\<close>

definition parse_scalar :: "string \<Rightarrow> (json \<times> string) option" where
  "parse_scalar s =
     (case s of
        [] \<Rightarrow> None
      | c # r \<Rightarrow>
          if c = CHR 0x22 then
            (case parse_chars r of None \<Rightarrow> None | Some (str, r') \<Rightarrow> Some (JString str, r'))
          else if starts_with s ''true'' then Some (JBool True, drop 4 s)
          else if starts_with s ''false'' then Some (JBool False, drop 5 s)
          else if starts_with s ''null'' then Some (JNull, drop 4 s)
          else (case parse_number s of None \<Rightarrow> None | Some (q, r') \<Rightarrow> Some (JNumber q, r')))"

text \<open>
  \<open>parse_value\<close> reads one value at the head of the input; \<open>parse_elements\<close> the elements
  of a non-empty array up to its bracket; \<open>parse_members\<close> the members of a non-empty
  object up to its brace.
\<close>

fun parse_value :: "nat \<Rightarrow> string \<Rightarrow> (json \<times> string) option"
  and parse_elements :: "nat \<Rightarrow> string \<Rightarrow> (json list \<times> string) option"
  and parse_members :: "nat \<Rightarrow> string \<Rightarrow> ((string \<times> json) list \<times> string) option" where
  "parse_value 0 s = None"
| "parse_value (Suc n) s =
     (case s of
        [] \<Rightarrow> None
      | c # r \<Rightarrow>
          if c = CHR ''['' then
            (case skip_ws r of
               [] \<Rightarrow> None
             | d # r' \<Rightarrow>
                 if d = CHR '']'' then Some (JArray [], r')
                 else (case parse_elements n (d # r') of
                         None \<Rightarrow> None
                       | Some (vs, r'') \<Rightarrow> Some (JArray vs, r'')))
          else if c = CHR ''{'' then
            (case skip_ws r of
               [] \<Rightarrow> None
             | d # r' \<Rightarrow>
                 if d = CHR ''}'' then Some (JObject [], r')
                 else (case parse_members n (d # r') of
                         None \<Rightarrow> None
                       | Some (kvs, r'') \<Rightarrow> Some (JObject kvs, r'')))
          else parse_scalar s)"
| "parse_elements 0 s = None"
| "parse_elements (Suc n) s =
     (case parse_value n s of
        None \<Rightarrow> None
      | Some (v, r) \<Rightarrow>
          (case skip_ws r of
             [] \<Rightarrow> None
           | d # r' \<Rightarrow>
               if d = CHR '','' then cons_fst v (parse_elements n (skip_ws r'))
               else if d = CHR '']'' then Some ([v], r')
               else None))"
| "parse_members 0 s = None"
| "parse_members (Suc n) s =
     (case s of
        [] \<Rightarrow> None
      | q # r \<Rightarrow>
          if q = CHR 0x22 then
            (case parse_chars r of
               None \<Rightarrow> None
             | Some (k, r1) \<Rightarrow>
                 (case skip_ws r1 of
                    [] \<Rightarrow> None
                  | col # r2 \<Rightarrow>
                      if col = CHR '':'' then
                        (case parse_value n (skip_ws r2) of
                           None \<Rightarrow> None
                         | Some (v, r3) \<Rightarrow>
                             (case skip_ws r3 of
                                [] \<Rightarrow> None
                              | d # r4 \<Rightarrow>
                                  if d = CHR '','' then
                                    cons_fst (k, v) (parse_members n (skip_ws r4))
                                  else if d = CHR ''}'' then Some ([(k, v)], r4)
                                  else None))
                      else None))
          else None)"

text \<open>
  \<^verbatim>\<open>JSON.parse(s)\<close>: one value, white space around it, nothing else. Each level of
  nesting and each element costs at most two units of the budget and at least one
  character, so the budget below is never used up (lemma \<open>JSON_parse_fuel\<close>).
\<close>

definition JSON_parse :: "string \<Rightarrow> json option" where
  "JSON_parse s =
     (case parse_value (2 * length s + 2) (skip_ws s) of
        None \<Rightarrow> None
      | Some (v, r) \<Rightarrow> if skip_ws r = [] then Some v else None)"

text \<open>
  Reading a property of a value that is not \<^verbatim>\<open>null\<close>: an object gives the value of the
  last member with that key, anything else \<^verbatim>\<open>undefined\<close> (none of the names read here
  is a built-in property of strings, numbers, booleans or arrays).
\<close>

definition get_prop :: "json \<Rightarrow> string \<Rightarrow> json option" where
  "get_prop v k = (case v of JObject kvs \<Rightarrow> map_of (rev kvs) k | _ \<Rightarrow> None)"

text \<open>\<^verbatim>\<open>Array.isArray(v) ? v : []\<close> for a possibly undefined \<open>v\<close>.\<close>

definition array_or_empty :: "json option \<Rightarrow> json list" where
  "array_or_empty v = (case v of Some (JArray xs) \<Rightarrow> xs | _ \<Rightarrow> [])"

definition is_array :: "json option \<Rightarrow> bool" where
  "is_array v = (case v of Some (JArray xs) \<Rightarrow> True | _ \<Rightarrow> False)"

section \<open>The extractor (chartGenerator.ts, parseChartDataFromText)\<close>

text \<open>\<^verbatim>\<open>if (!jsonMatch) jsonMatch = ...\<close>\<close>

definition or_else :: "'a option \<Rightarrow> 'a option \<Rightarrow> 'a option" where
  "or_else a b = (case a of None \<Rightarrow> b | Some x \<Rightarrow> Some x)"

definition jsonMatch :: "string \<Rightarrow> (string \<times> string option) option" where
  "jsonMatch text =
     or_else (str_match re_json_fence text)
       (or_else (str_match re_any_fence text)
          (or_else (str_match re_labels_datasets text)
             (str_match re_braces text)))"

text \<open>\<^verbatim>\<open>jsonMatch[1] || jsonMatch[0]\<close>: an empty group is falsy.\<close>

definition jsonStr :: "string \<times> string option \<Rightarrow> string" where
  "jsonStr m =
     (case snd m of None \<Rightarrow> fst m | Some g \<Rightarrow> if g = [] then fst m else g)"

text \<open>
  The callback of \<^verbatim>\<open>parsed.datasets.map\<close>. Reading \<^verbatim>\<open>ds.label\<close> of \<^verbatim>\<open>null\<close> throws
  (\<open>None\<close>).
\<close>

definition to_dataset :: "json \<Rightarrow> dataset option" where
  "to_dataset ds =
     (if ds = JNull then None
      else Some (mk_dataset (or_default (get_prop ds ''label'') (JString ''Dataset''))
                            (array_or_empty (get_prop ds ''data''))))"

definition those_list :: "'a option list \<Rightarrow> 'a list option" where
  "those_list xs = foldr (\<lambda>x acc. case x of None \<Rightarrow> None
                                   | Some v \<Rightarrow> (case acc of None \<Rightarrow> None | Some vs \<Rightarrow> Some (v # vs)))
                         xs (Some [])"

definition extract_datasets :: "json \<Rightarrow> dataset list option" where
  "extract_datasets parsed =
     (if is_array (get_prop parsed ''datasets'')
      then those_list (map to_dataset (array_or_empty (get_prop parsed ''datasets'')))
      else if is_array (get_prop parsed ''data'')
      then Some [mk_dataset (or_default (get_prop parsed ''label'') (JString ''Data''))
                            (array_or_empty (get_prop parsed ''data''))]
      else Some [])"

definition type_from_text :: "string \<Rightarrow> json" where
  "type_from_text text =
     (if includes_str (toLowerCase text) ''pie'' then JString ''pie''
      else if includes_str (toLowerCase text) ''line'' then JString ''line''
      else if includes_str (toLowerCase text) ''bar'' then JString ''bar''
      else JString ''bar'')"

definition resolve_type :: "json \<Rightarrow> string \<Rightarrow> json" where
  "resolve_type parsed text =
     (case get_prop parsed ''type'' of
        None \<Rightarrow> type_from_text text
      | Some t \<Rightarrow> if truthy t then t else type_from_text text)"

definition resolve_title :: "json \<Rightarrow> json" where
  "resolve_title parsed = or_default (get_prop parsed ''title'') (JString [])"

text \<open>
  The body of the \<^verbatim>\<open>try\<close> once the text is parsed. \<open>None\<close> is \<^verbatim>\<open>null\<close>, whether returned
  after the validation or from the \<^verbatim>\<open>catch\<close> (reading \<^verbatim>\<open>parsed.labels\<close> of \<^verbatim>\<open>null\<close>
  throws, as does a \<^verbatim>\<open>null\<close> dataset).
\<close>

definition spec_of_parsed :: "json \<Rightarrow> string \<Rightarrow> ChartSpec option" where
  "spec_of_parsed parsed text =
     (if parsed = JNull then None
      else (case extract_datasets parsed of
              None \<Rightarrow> None
            | Some dss \<Rightarrow>
                (let ls = array_or_empty (get_prop parsed ''labels'')
                 in if passes_validation ls dss
                    then Some \<lparr>spec_data = \<lparr>labels = ls, datasets = dss\<rparr>,
                               spec_options = mk_options (resolve_type parsed text)
                                                (Some (resolve_title parsed)) None\<rparr>
                    else None)))"

text \<open>
  The text handed to \<^verbatim>\<open>JSON.parse\<close> and what it parses to; \<open>None\<close> when no pattern
  matches or \<^verbatim>\<open>JSON.parse\<close> throws.
\<close>

definition parsedJson :: "string \<Rightarrow> json option" where
  "parsedJson text =
     (case jsonMatch text of
        None \<Rightarrow> None
      | Some m \<Rightarrow> JSON_parse (jsonStr m))"

definition parseChartDataFromText :: "string \<Rightarrow> ChartSpec option" where
  "parseChartDataFromText text =
     (case parsedJson text of
        None \<Rightarrow> None
      | Some parsed \<Rightarrow> spec_of_parsed parsed text)"

section \<open>Prompts (prompts.ts)\<close>

definition getSystemPrompt :: string where
  \<open>getSystemPrompt =
     ''You are a helpful AI assistant that can engage in conversations and create data visualizations.\<newline>'' @
     ''\<newline>'' @
     ''When a user asks for a chart or visualization:\<newline>'' @
     ''1. Analyze their request to understand the data and chart type needed\<newline>'' @
     ''2. Generate a JSON specification for the chart\<newline>'' @
     ''3. Wrap the JSON in ```json code blocks\<newline>'' @
     ''\<newline>'' @
     ''For chart requests, always respond with a valid JSON structure like this:\<newline>'' @
     ''```json\<newline>'' @
     ''{\<newline>'' @
     ''  "type": "bar",\<newline>'' @
     ''  "title": "Chart Title",\<newline>'' @
     ''  "labels": ["Label1", "Label2", "Label3"],\<newline>'' @
     ''  "datasets": [\<newline>'' @
     ''    {\<newline>'' @
     ''      "label": "Dataset Name",\<newline>'' @
     ''      "data": [10, 20, 30]\<newline>'' @
     ''    }\<newline>'' @
     ''  ]\<newline>'' @
     ''}\<newline>'' @
     ''```\<newline>'' @
     ''\<newline>'' @
     ''Supported chart types: bar, line, pie, doughnut\<newline>'' @
     ''\<newline>'' @
     ''For regular conversations, respond naturally and helpfully.''\<close>

definition chartPromptHead :: string where
  \<open>chartPromptHead =
     ''You are a data visualization expert. Generate ONLY a JSON specification for a chart.\<newline>'' @
     ''\<newline>'' @
     ''CRITICAL: Your response MUST be ONLY valid JSON wrapped in ```json code blocks. Do NOT include any explanatory text before or after the JSON.\<newline>'' @
     ''\<newline>'' @
     ''Required JSON structure:\<newline>'' @
     ''```json\<newline>'' @
     ''{\<newline>'' @
     ''  "type": "bar|line|pie|doughnut",\<newline>'' @
     ''  "title": "Descriptive Chart Title",\<newline>'' @
     ''  "labels": ["category1", "category2", "category3"],\<newline>'' @
     ''  "datasets": [\<newline>'' @
     ''    {\<newline>'' @
     ''      "label": "Dataset Name",\<newline>'' @
     ''      "data": [10, 20, 30]\<newline>'' @
     ''    }\<newline>'' @
     ''  ]\<newline>'' @
     ''}\<newline>'' @
     ''```\<newline>'' @
     ''\<newline>'' @
     ''Rules:\<newline>'' @
     ''1. If user mentions "pie" or "doughnut", use that type\<newline>'' @
     ''2. If user mentions "line" or "trend", use "line"\<newline>'' @
     ''3. If user mentions "bar" or "comparison", use "bar"\<newline>'' @
     ''4. If no specific data provided, create realistic sample data (5-8 data points)\<newline>'' @
     ''5. Labels and data arrays must have the same length\<newline>'' @
     ''6. Use descriptive titles based on the user'' @ [CHR 0x27] @ ''s request\<newline>'' @
     ''7. Note: Background images can be requested by including "with background" or "background image" in the request\<newline>'' @
     ''\<newline>'' @
     ''User request: ''\<close>

definition chartPromptTail :: string where
  \<open>chartPromptTail =
     ''\<newline>'' @
     ''\<newline>'' @
     ''Generate ONLY the JSON code block, nothing else.''\<close>

definition getChartPrompt :: "string \<Rightarrow> string" where
  "getChartPrompt userRequest = chartPromptHead @ userRequest @ chartPromptTail"

section \<open>Rendering (chartGenerator.ts, generateFromData)\<close>

text \<open>
  The canvas and the chart library are outside the model. What \<^verbatim>\<open>generateFromData\<close>
  draws is recorded instead: the canvas size, the base fill, the synthesized background
  when one is drawn, the coloured data handed to the chart, the title shown, whether the
  chart has axes, and the watermark step taken.
\<close>

text \<open>
  The watermark step: none, \<^verbatim>\<open>applyWatermarkTextToCanvas\<close> with the text itself, or
  \<^verbatim>\<open>applyWatermarkToCanvas\<close> with a prompt, which first asks the model for the text
  (\<^verbatim>\<open>generateWatermarkTextWithOllama\<close> in watermarkGenerator.ts).
\<close>

datatype watermark = NoWatermark | WatermarkText string | WatermarkFromModel string

text \<open>Calls to the model the watermark step makes.\<close>

fun watermark_model_calls :: "watermark \<Rightarrow> nat" where
  "watermark_model_calls NoWatermark = 0"
| "watermark_model_calls (WatermarkText t) = 0"
| "watermark_model_calls (WatermarkFromModel p) = 1"

record rendering =
  canvasWidth :: nat
  canvasHeight :: nat
  baseFill :: string
  overlay :: "background option"
  chart :: ChartData
  shownTitle :: "json option"
  hasScales :: bool
  mark :: watermark

definition defaultWidth :: nat where
  "defaultWidth = 462"

definition defaultHeight :: nat where
  "defaultHeight = 347"

text \<open>\<^verbatim>\<open>n || d\<close> for an optional number: 0 is falsy.\<close>

definition nat_or :: "nat option \<Rightarrow> nat \<Rightarrow> nat" where
  "nat_or v d = (case v of None \<Rightarrow> d | Some n \<Rightarrow> if n = 0 then d else n)"

definition str_or :: "string option \<Rightarrow> string \<Rightarrow> string" where
  "str_or v d = (case v of None \<Rightarrow> d | Some t \<Rightarrow> if t = [] then d else t)"

text \<open>
  \<^verbatim>\<open>applyBackground\<close>: the base fill, the background drawn over it, and the options
  with the description written back. \<open>client\<close> is the generator's \<^verbatim>\<open>ollamaClient\<close>,
  which may be absent.
\<close>

definition applyBackground :: "generate_fn option \<Rightarrow> ChartOptions \<Rightarrow> string \<times> background option \<times> ChartOptions" where
  "applyBackground client options =
     (let base = str_or (fillColor options) ''#ffffff''
      in case backgroundImagePrompt options of
           None \<Rightarrow> (base, None, options)
         | Some prompt \<Rightarrow>
             (if prompt = [] then (base, None, options)
              else (case client of
                      None \<Rightarrow> (base, None, options)
                    | Some gen \<Rightarrow>
                        (case generateBackgroundImage gen prompt of
                           None \<Rightarrow> (base, None, options)
                         | Some (bg, description) \<Rightarrow>
                             (base, Some bg,
                              options\<lparr>backgroundDescription := Some description\<rparr>)))))"

text \<open>
  The watermark decision in the \<^verbatim>\<open>setTimeout\<close> callback:
  \<^verbatim>\<open>watermarkText = options.backgroundDescription || options.watermarkPrompt\<close>, then the
  test of \<^verbatim>\<open>options.backgroundDescription\<close>.
\<close>

definition or_str :: "string option \<Rightarrow> string option \<Rightarrow> string option" where
  "or_str a b = (if truthy_str a then a else b)"

definition chooseWatermark :: "ChartOptions \<Rightarrow> watermark" where
  "chooseWatermark options =
     (case or_str (backgroundDescription options) (watermarkPrompt options) of
        None \<Rightarrow> NoWatermark
      | Some watermarkText \<Rightarrow>
          if watermarkText = [] then NoWatermark
          else if truthy_str (backgroundDescription options)
          then (case backgroundDescription options of
                  None \<Rightarrow> NoWatermark
                | Some description \<Rightarrow> WatermarkText description)
          else (case watermarkPrompt options of
                  None \<Rightarrow> NoWatermark
                | Some prompt \<Rightarrow> WatermarkFromModel prompt))"

text \<open>The options as the watermark step sees them, after \<^verbatim>\<open>applyBackground\<close>.\<close>

definition optionsAfterBackground :: "generate_fn option \<Rightarrow> ChartOptions \<Rightarrow> ChartOptions" where
  "optionsAfterBackground client options = snd (snd (applyBackground client options))"

definition generateFromData :: "generate_fn option \<Rightarrow> ChartData \<Rightarrow> ChartOptions \<Rightarrow> rendering" where
  "generateFromData client cd options =
     (case applyBackground client options of
        (base, bg, options') \<Rightarrow>
          \<lparr>canvasWidth = nat_or (width options) defaultWidth,
           canvasHeight = nat_or (height options) defaultHeight,
           baseFill = base,
           overlay = bg,
           chart = applyDefaultColors cd (chartType options),
           shownTitle = (case title options of None \<Rightarrow> None
                         | Some t \<Rightarrow> if truthy t then Some t else None),
           hasScales = (if chartType options = JString ''pie'' then False
                        else chartType options \<noteq> JString ''doughnut''),
           mark = chooseWatermark options'\<rparr>)"

section \<open>The agent (agent/index.ts)\<close>

datatype role = System | User | Assistant

record ChatMessage =
  role :: role
  content :: string

definition list_some :: "('a \<Rightarrow> bool) \<Rightarrow> 'a list \<Rightarrow> bool" where
  "list_some p xs = list_ex p xs"

definition chartKeywords :: "string list" where
  "chartKeywords =
     [''chart'', ''graph'', ''plot'', ''visualize'', ''visualization'',
      ''bar chart'', ''line chart'', ''pie chart'', ''histogram'',
      ''show me'', ''create a'', ''generate a'', ''draw a'']"

definition isChartRequest :: "string \<Rightarrow> bool" where
  "isChartRequest message =
     list_some (\<lambda>keyword. includes_str (toLowerCase message) keyword) chartKeywords"

text \<open>
  \<^verbatim>\<open>extractWatermarkPrompt\<close>. The pattern
  \<^verbatim>\<open>/create|show|generate|display|chart|graph|pie|bar|line|doughnut|me|a|an|the/gi\<close>
  is tried at each position, its alternatives in order and without regard to case; what
  it matches is removed.
\<close>

definition watermarkStopWords :: "string list" where
  "watermarkStopWords =
     [''create'', ''show'', ''generate'', ''display'', ''chart'', ''graph'', ''pie'', ''bar'',
      ''line'', ''doughnut'', ''me'', ''a'', ''an'', ''the'']"

text \<open>\<open>skip\<close> counts the characters of the current match still to be dropped.\<close>

fun remove_words :: "string list \<Rightarrow> nat \<Rightarrow> string \<Rightarrow> string" where
  "remove_words ws skip [] = []"
| "remove_words ws skip (c # cs) =
     (if 0 < skip then remove_words ws (skip - 1) cs
      else (case find (starts_with_ci (c # cs)) ws of
              None \<Rightarrow> c # remove_words ws 0 cs
            | Some w \<Rightarrow> remove_words ws (length w - 1) cs))"

text \<open>\<^verbatim>\<open>s.split(/\s+/)\<close>: the pieces between the runs of white space.\<close>

fun split_ws :: "string \<Rightarrow> bool \<Rightarrow> string \<Rightarrow> string list" where
  "split_ws cur sep [] = [rev cur]"
| "split_ws cur sep (c # cs) =
     (if is_space c
      then (if sep then split_ws cur True cs else rev cur # split_ws [] True cs)
      else split_ws (c # cur) False cs)"

fun join_with :: "string \<Rightarrow> string list \<Rightarrow> string" where
  "join_with sep [] = []"
| "join_with sep [w] = w"
| "join_with sep (w # v # ws) = w @ sep @ join_with sep (v # ws)"

definition extractWatermarkPrompt :: "string \<Rightarrow> string" where
  "extractWatermarkPrompt userMessage =
     (let cleaned = trim (remove_words watermarkStopWords 0 userMessage);
          ws = take 5 (filter (\<lambda>w. 2 < length w) (split_ws [] False cleaned))
      in if ws = [] then take 15 userMessage else join_with '' '' ws)"

text \<open>
  \<^verbatim>\<open>extractBackgroundImagePrompt\<close>. The description is what the pattern
  \<^verbatim>\<open>/.*?(?:with|background|bg)[:\s]+(.*?)(?:chart|graph|showing|displaying|$)/i\<close>
  captures: \<^verbatim>\<open>replace\<close> puts the group in the place of the first match and leaves the
  text as it is when nothing matches.
\<close>

definition backgroundKeywords :: "string list" where
  "backgroundKeywords =
     [''background'', ''bg'', ''with background'', ''background image'',
      ''background color'', ''background pattern'', ''background gradient'']"

definition re_background :: "regex_item list" where
  "re_background =
     [Lazy DotChar, OneOf [''with'', ''background'', ''bg''] False, Greedy ColonSpaceChar 1,
      GroupStart, Lazy DotChar, GroupEnd,
      OneOf [''chart'', ''graph'', ''showing'', ''displaying''] True]"

text \<open>\<^verbatim>\<open>text.replace(re, '$1')\<close> for a pattern without the global flag.\<close>

definition replace_by_group :: "regex_item list \<Rightarrow> string \<Rightarrow> string" where
  "replace_by_group re text =
     (case regex_search re text of
        None \<Rightarrow> text
      | Some (start, rest, gs, ge) \<Rightarrow>
          between text start
          @ (case gs of None \<Rightarrow> []
             | Some a \<Rightarrow> (case ge of None \<Rightarrow> [] | Some b \<Rightarrow> between a b))
          @ rest)"

definition backgroundStopWords :: "string list" where
  "backgroundStopWords =
     [''create'', ''show'', ''generate'', ''display'', ''chart'', ''graph'', ''pie'', ''bar'',
      ''line'', ''doughnut'']"

definition extractBackgroundImagePrompt :: "string \<Rightarrow> string option" where
  "extractBackgroundImagePrompt userMessage =
     (let lowerMessage = toLowerCase userMessage
      in if list_some (\<lambda>keyword. includes_str lowerMessage keyword) backgroundKeywords
         then (let found = trim (replace_by_group re_background userMessage);
                   backgroundDesc =
                     (if found = [] \<or> length found < 3
                      then join_with '' ''
                             (take 5 (split_ws [] False
                                        (trim (remove_words backgroundStopWords 0 userMessage))))
                      else found)
               in if backgroundDesc \<noteq> [] \<and> 2 < length backgroundDesc
                  then Some backgroundDesc else None)
         else None)"

definition generateFallbackChart :: "string \<Rightarrow> ChartSpec" where
  "generateFallbackChart userMessage =
     (let lowerMessage = toLowerCase userMessage;
          chartType =
            (if includes_str lowerMessage ''pie'' then ''pie''
             else if includes_str lowerMessage ''doughnut'' then ''doughnut''
             else if includes_str lowerMessage ''line'' \<or> includes_str lowerMessage ''trend''
             then ''line''
             else ''bar'');
          labels0 = [''Category A'', ''Category B'', ''Category C'', ''Category D'', ''Category E''];
          data0 = [25, 30, 20, 15, 10];
          labels1 =
            (if includes_str lowerMessage ''month''
             then splice 0 5 [''Jan'', ''Feb'', ''Mar'', ''Apr'', ''May''] labels0
             else if includes_str lowerMessage ''quarter''
             then splice 0 4 [''Q1'', ''Q2'', ''Q3'', ''Q4''] labels0
             else if includes_str lowerMessage ''product''
             then splice 0 5 [''Product 1'', ''Product 2'', ''Product 3'', ''Product 4'',
                              ''Product 5''] labels0
             else labels0);
          data1 =
            (if includes_str lowerMessage ''month'' then data0
             else if includes_str lowerMessage ''quarter'' then splice 0 4 [30, 35, 28, 32] data0
             else data0)
      in \<lparr>spec_data = \<lparr>labels = map JString labels1,
                         datasets = [mk_dataset (JString ''Sample Data'') (map JNumber data1)]\<rparr>,
          spec_options = mk_options (JString chartType) (Some (JString ''Generated Chart''))
                           (Some (extractWatermarkPrompt userMessage))\<rparr>)"

text \<open>
  \<^verbatim>\<open>generateAIChart\<close>: the model's \<^verbatim>\<open>generate\<close> is \<open>gen\<close>; a thrown error is \<open>Inl\<close> its
  message. The chart generator was built with the same client.
\<close>

definition generateAIChart :: "generate_fn \<Rightarrow> string \<Rightarrow> string + rendering" where
  "generateAIChart gen prompt =
     (case gen (getChartPrompt prompt) of
        Inl err \<Rightarrow> Inl err
      | Inr response \<Rightarrow>
          (case parseChartDataFromText response of
             None \<Rightarrow> Inl ''Failed to generate valid chart specification from AI response''
           | Some chartSpec \<Rightarrow>
               Inr (generateFromData (Some gen) (spec_data chartSpec) (spec_options chartSpec))))"

text \<open>
  The conversation history is a JavaScript array; reading an index out of range gives
  \<^verbatim>\<open>undefined\<close>, so an entry is an option.
\<close>

type_synonym history = "ChatMessage option list"

type_synonym chat_fn = "history \<Rightarrow> string + string"

definition at_index :: "'a option list \<Rightarrow> nat \<Rightarrow> 'a option" where
  "at_index xs i = (if i < length xs then xs ! i else None)"

definition systemTurn :: "ChatMessage option" where
  "systemTurn = Some \<lparr>role = System, content = getSystemPrompt\<rparr>"

text \<open>The history the constructor leaves.\<close>

definition initialHistory :: history where
  "initialHistory = [systemTurn]"

definition trimHistory :: "history \<Rightarrow> history" where
  "trimHistory h = (if 21 < length h then at_index h 0 # slice_last 20 h else h)"

definition clearHistory :: "history \<Rightarrow> history" where
  "clearHistory h = [at_index h 0]"

text \<open>
  The options \<^verbatim>\<open>chat\<close> hands to \<^verbatim>\<open>generateFromData\<close>:
  \<^verbatim>\<open>{ ...chartSpec.options, watermarkPrompt, backgroundImagePrompt }\<close>, both taken from the
  user's message.
\<close>

definition chartOptionsWithExtras :: "ChartOptions \<Rightarrow> string \<Rightarrow> ChartOptions" where
  "chartOptionsWithExtras options userMessage =
     options\<lparr>watermarkPrompt := Some (extractWatermarkPrompt userMessage),
             backgroundImagePrompt := extractBackgroundImagePrompt userMessage\<rparr>"

text \<open>
  One call of \<^verbatim>\<open>chat\<close>: the result (\<open>Inl\<close> the error the call rejects with, \<open>Inr\<close> the
  full response), the history it leaves, and on the chart path the data and the options
  the image is generated from, that is the arguments of \<^verbatim>\<open>generateFromData\<close> (\<open>onImage\<close>
  says whether the caller gave that callback). The drawing of that image and the
  callbacks are not modelled.
\<close>

record chat_result =
  reply :: "string + string"
  historyAfter :: history
  imageSpec :: "ChartSpec option"

definition chat :: "chat_fn \<Rightarrow> bool \<Rightarrow> string \<Rightarrow> history \<Rightarrow> chat_result" where
  "chat llm onImage userMessage h =
     (let h1 = h @ [Some \<lparr>role = User, content = userMessage\<rparr>]
      in if isChartRequest userMessage
         then (case llm [Some \<lparr>role = System, content = getChartPrompt userMessage\<rparr>,
                         Some \<lparr>role = User, content = userMessage\<rparr>] of
                 Inl err \<Rightarrow> \<lparr>reply = Inl err, historyAfter = h1, imageSpec = None\<rparr>
               | Inr fullResponse \<Rightarrow>
                   (let chartSpec = (case parseChartDataFromText fullResponse of
                                       None \<Rightarrow> generateFallbackChart userMessage
                                     | Some sp \<Rightarrow> sp)
                    in \<lparr>reply = Inr fullResponse,
                        historyAfter =
                          trimHistory (h1 @ [Some \<lparr>role = Assistant, content = fullResponse\<rparr>]),
                        imageSpec =
                          (if onImage
                           then Some \<lparr>spec_data = spec_data chartSpec,
                                      spec_options =
                                        chartOptionsWithExtras (spec_options chartSpec) userMessage\<rparr>
                           else None)\<rparr>))
         else (case llm h1 of
                 Inl err \<Rightarrow> \<lparr>reply = Inl err, historyAfter = h1, imageSpec = None\<rparr>
               | Inr fullResponse \<Rightarrow>
                   \<lparr>reply = Inr fullResponse,
                    historyAfter =
                      trimHistory (h1 @ [Some \<lparr>role = Assistant, content = fullResponse\<rparr>]),
                    imageSpec = None\<rparr>))"

text \<open>
  A run of the agent: calls of \<^verbatim>\<open>chat\<close> (each with the model's behaviour during that
  call) and of \<^verbatim>\<open>clearHistory\<close>, from the history the constructor leaves.
\<close>

datatype agent_call = Chat chat_fn bool string | Clear

text \<open>Two behaviours of the model client: it is down, or it answers.\<close>

definition failing_model :: chat_fn where
  "failing_model msgs = Inl ''Ollama error: fetch failed''"

definition answering_model :: chat_fn where
  "answering_model msgs = Inr ''Hello!''"

definition answering_generate :: generate_fn where
  "answering_generate prompt = Inr ''Hello!''"


fun agent_step :: "history \<Rightarrow> agent_call \<Rightarrow> history" where
  "agent_step h (Chat llm onImage userMessage) = historyAfter (chat llm onImage userMessage h)"
| "agent_step h Clear = clearHistory h"

definition agent_run :: "agent_call list \<Rightarrow> history" where
  "agent_run calls = foldl agent_step initialHistory calls"

section \<open>The selection of the text to parse, as specified\<close>

text \<open>The text a pattern hands to \<^verbatim>\<open>JSON.parse\<close> when it matches: \<^verbatim>\<open>jsonMatch[1] || jsonMatch[0]\<close>.\<close>

definition candidate :: "regex_item list \<Rightarrow> string \<Rightarrow> string option" where
  "candidate re text = (case str_match re text of None \<Rightarrow> None | Some m \<Rightarrow> Some (jsonStr m))"

definition patterns :: "regex_item list list" where
  "patterns = [re_json_fence, re_any_fence, re_labels_datasets, re_braces]"

text \<open>The selection as the specification words it: the first of the four patterns, in order, that yields text \<^verbatim>\<open>JSON.parse\<close> accepts; the result is what that text parses to.\<close>

definition parses :: "regex_item list \<Rightarrow> string \<Rightarrow> bool" where
  "parses re text = (case candidate re text of None \<Rightarrow> False | Some s \<Rightarrow> JSON_parse s \<noteq> None)"

definition first_parseable :: "string \<Rightarrow> json option" where
  "first_parseable text =
     (case find (\<lambda>re. parses re text) patterns of
        None \<Rightarrow> None
      | Some re \<Rightarrow> (case candidate re text of None \<Rightarrow> None | Some s \<Rightarrow> JSON_parse s))"

section \<open>JSON.stringify\<close>

















section \<open>Sample inputs\<close>

text \<open>A chart whose only dataset asks for a border of width 0.\<close>

definition zero_border_chart :: ChartData where
  "zero_border_chart =
     \<lparr>labels = [JString ''a''],
      datasets = [(mk_dataset (JString ''s'') [JNumber 1])\<lparr>borderWidth := Some (JNumber 0)\<rparr>]\<rparr>"

text \<open>Options that carry both a background description and a watermark prompt.\<close>

definition both_sources :: ChartOptions where
  "both_sources =
     (mk_options (JString ''bar'') None (Some ''quarterly sales''))
       \<lparr>backgroundDescription := Some ''blue gradient''\<rparr>"

text \<open>Options that carry a watermark prompt only.\<close>

definition prompt_only :: ChartOptions where
  "prompt_only = mk_options (JString ''bar'') None (Some ''quarterly sales'')"

text \<open>Ten turns the model answers, then one turn during which the model is down.\<close>

definition ten_turns_then_failure :: "agent_call list" where
  "ten_turns_then_failure =
     replicate 10 (Chat answering_model False ''hello'') @ [Chat failing_model False ''hello'']"

text \<open>
  A request that asks for a background, the fallback chart for it, and the options the
  chat path renders that chart with.
\<close>

definition blue_request :: string where
  "blue_request = ''draw a chart with blue background''"

definition blue_fallback_chart :: ChartSpec where
  "blue_fallback_chart =
     \<lparr>spec_data =
        \<lparr>labels = [JString ''Category A'', JString ''Category B'', JString ''Category C'',
                   JString ''Category D'', JString ''Category E''],
         datasets = [mk_dataset (JString ''Sample Data'')
                       [JNumber 25, JNumber 30, JNumber 20, JNumber 15, JNumber 10]]\<rparr>,
      spec_options = mk_options (JString ''bar'') (Some (JString ''Generated Chart''))
                       (Some ''drw with blue bckground'')\<rparr>"

definition blue_options :: ChartOptions where
  "blue_options =
     (mk_options (JString ''bar'') (Some (JString ''Generated Chart''))
        (Some ''drw with blue bckground''))
       \<lparr>backgroundImagePrompt := Some ''blue background''\<rparr>"







text \<open>A response with a fenced block that is not JSON, followed by a chart object.\<close>

definition fence_then_object :: string where
  \<open>fence_then_object =
     ''```json x ``` {"labels":["a"],"datasets":[{"label":"s","data":[1]}]}''\<close>

text \<open>Responses whose first matching pattern is the second, the third and the fourth.\<close>

definition plain_fence_response :: string where
  \<open>plain_fence_response = ''```\<newline>{"labels":["a"],"data":[1]}\<newline>```''\<close>

definition bare_object_response :: string where
  \<open>bare_object_response = ''Chart: {"labels":["a"],"datasets":[{"data":[1]}]} done''\<close>

definition bare_data_response :: string where
  \<open>bare_data_response = ''Chart: {"labels":["a"],"data":[1]} done''\<close>






section \<open>Properties\<close>

subsection \<open>The fallback chart\<close>

text \<open>
  C3. For every input string, the empty string included, \<^verbatim>\<open>generateFallbackChart\<close>
  returns a chart whose labels are not empty and which has a dataset with data; it also
  passes the extractor's own validation test.
\<close>

theorem generateFallbackChart_valid:
  "labels (spec_data (generateFallbackChart userMessage)) \<noteq> []
   \<and> has_data (datasets (spec_data (generateFallbackChart userMessage)))
   \<and> passes_validation (labels (spec_data (generateFallbackChart userMessage)))
        (datasets (spec_data (generateFallbackChart userMessage)))"
  by (simp add: generateFallbackChart_def Let_def has_data_def passes_validation_def
      mk_dataset_def splice_def)

subsection \<open>Background routing\<close>













subsection \<open>Default colours\<close>

lemma colored_length: "length (datasets (applyDefaultColors cd t)) = length (datasets cd)"
  by (simp add: applyDefaultColors_def)

lemma colored_nth:
  "i < length (datasets cd) \<Longrightarrow>
   datasets (applyDefaultColors cd t) ! i = colorDataset t (length (labels cd)) i (datasets cd ! i)"
  by (simp add: applyDefaultColors_def)

lemma colored_labels: "labels (applyDefaultColors cd t) = labels cd"
  by (simp add: applyDefaultColors_def)

lemma colorDataset_label: "label (colorDataset t n i ds) = label ds"
  by (simp add: colorDataset_def)

lemma colorDataset_data: "data (colorDataset t n i ds) = data ds"
  by (simp add: colorDataset_def)

lemma colorDataset_borderWidth:
  "borderWidth (colorDataset t n i ds) = Some (or_default (borderWidth ds) (JNumber 2))"
  by (simp add: colorDataset_def)

lemma colored_map_label: "map label (datasets (applyDefaultColors cd t)) = map label (datasets cd)"
  by (rule nth_equalityI) (simp_all add: colored_length colored_nth colorDataset_label)

lemma colored_map_data: "map data (datasets (applyDefaultColors cd t)) = map data (datasets cd)"
  by (rule nth_equalityI) (simp_all add: colored_length colored_nth colorDataset_data)

lemma or_default_two_nonzero:
  "or_default w (JNumber 2) \<noteq> JNumber 0"
  by (cases w) (auto simp: or_default_def)

lemma colored_borderWidth:
  assumes "ds \<in> set (datasets (applyDefaultColors cd t))"
  shows "borderWidth ds \<noteq> None \<and> borderWidth ds \<noteq> Some (JNumber 0)"
proof -
  from assms obtain i where i: "i < length (datasets (applyDefaultColors cd t))"
    and ds: "ds = datasets (applyDefaultColors cd t) ! i"
    by (auto simp: in_set_conv_nth)
  from i have "i < length (datasets cd)" by (simp add: colored_length)
  then have "borderWidth ds = Some (or_default (borderWidth (datasets cd ! i)) (JNumber 2))"
    using ds by (simp add: colored_nth colorDataset_borderWidth)
  then show ?thesis by (simp add: or_default_two_nonzero)
qed

lemma rendering_chart: "chart (generateFromData client cd options) = applyDefaultColors cd (chartType options)"
  by (cases "applyBackground client options") (simp add: generateFromData_def)

text \<open>
  C10. \<^verbatim>\<open>applyDefaultColors\<close> leaves the labels and every dataset's label and data as they
  were. A dataset whose \<^verbatim>\<open>borderWidth\<close> is absent or is the number 0 comes out with
  border width 2, so no dataset of the chart that \<^verbatim>\<open>generateFromData\<close> draws has
  border width 0.
\<close>

theorem applyDefaultColors_borderWidth:
  "labels (applyDefaultColors cd t) = labels cd
   \<and> map label (datasets (applyDefaultColors cd t)) = map label (datasets cd)
   \<and> map data (datasets (applyDefaultColors cd t)) = map data (datasets cd)
   \<and> (\<forall>i < length (datasets cd).
         (borderWidth (datasets cd ! i) = None \<or> borderWidth (datasets cd ! i) = Some (JNumber 0))
         \<longrightarrow> borderWidth (datasets (applyDefaultColors cd t) ! i) = Some (JNumber 2))
   \<and> (\<forall>ds \<in> set (datasets (chart (generateFromData client cd options))).
         borderWidth ds \<noteq> None \<and> borderWidth ds \<noteq> Some (JNumber 0))"
proof (intro conjI)
  show "labels (applyDefaultColors cd t) = labels cd" by (rule colored_labels)
  show "map label (datasets (applyDefaultColors cd t)) = map label (datasets cd)"
    by (rule colored_map_label)
  show "map data (datasets (applyDefaultColors cd t)) = map data (datasets cd)"
    by (rule colored_map_data)
  show "\<forall>i < length (datasets cd).
         (borderWidth (datasets cd ! i) = None \<or> borderWidth (datasets cd ! i) = Some (JNumber 0))
         \<longrightarrow> borderWidth (datasets (applyDefaultColors cd t) ! i) = Some (JNumber 2)"
    by (auto simp: colored_nth colorDataset_borderWidth or_default_def)
  show "\<forall>ds \<in> set (datasets (chart (generateFromData client cd options))).
         borderWidth ds \<noteq> None \<and> borderWidth ds \<noteq> Some (JNumber 0)"
    using colored_borderWidth by (simp add: rendering_chart)
qed

theorem applyDefaultColors_borderWidth_witness:
  "map borderWidth (datasets (applyDefaultColors zero_border_chart (JString ''bar''))) = [Some (JNumber 2)]
   \<and> map data (datasets (applyDefaultColors zero_border_chart (JString ''bar''))) = [[JNumber 1]]
   \<and> labels (applyDefaultColors zero_border_chart (JString ''bar'')) = [JString ''a'']"
proof -
  have len: "length (datasets zero_border_chart) = 1"
    by (simp add: zero_border_chart_def)
  have z: "borderWidth (datasets zero_border_chart ! 0) = Some (JNumber 0)"
    by (simp add: zero_border_chart_def)
  have d: "map data (datasets zero_border_chart) = [[JNumber 1]]"
    by (simp add: zero_border_chart_def mk_dataset_def)
  have l: "labels zero_border_chart = [JString ''a'']"
    by (simp add: zero_border_chart_def)
  note t = applyDefaultColors_borderWidth [of zero_border_chart "JString ''bar''" None
      "mk_options (JString ''bar'') None None"]
  from t len z have "borderWidth (datasets (applyDefaultColors zero_border_chart (JString ''bar'')) ! 0)
      = Some (JNumber 2)" by simp
  moreover have "length (datasets (applyDefaultColors zero_border_chart (JString ''bar''))) = 1"
    using len by (simp add: colored_length)
  ultimately have "map borderWidth (datasets (applyDefaultColors zero_border_chart (JString ''bar'')))
      = [Some (JNumber 2)]"
    by (cases "datasets (applyDefaultColors zero_border_chart (JString ''bar''))") auto
  with t d l show ?thesis by simp
qed

subsection \<open>The watermark source\<close>

lemma applyBackground_watermarkPrompt:
  "watermarkPrompt (optionsAfterBackground client options) = watermarkPrompt options"
  by (simp add: optionsAfterBackground_def applyBackground_def Let_def
      split: option.splits prod.splits)

lemma applyBackground_unchanged:
  "backgroundImagePrompt options = None \<Longrightarrow> optionsAfterBackground client options = options"
  by (simp add: optionsAfterBackground_def applyBackground_def Let_def)

lemma rendering_mark:
  "mark (generateFromData client cd options) = chooseWatermark (optionsAfterBackground client options)"
  by (cases "applyBackground client options")
     (simp add: generateFromData_def optionsAfterBackground_def)

lemma chooseWatermark_description:
  "backgroundDescription o' = Some d \<Longrightarrow> d \<noteq> [] \<Longrightarrow> chooseWatermark o' = WatermarkText d"
  by (simp add: chooseWatermark_def or_str_def truthy_str_def)

lemma chooseWatermark_prompt:
  "chooseWatermark o' = WatermarkFromModel p \<Longrightarrow>
   \<not> truthy_str (backgroundDescription o') \<and> watermarkPrompt o' = Some p \<and> p \<noteq> []"
  by (auto simp: chooseWatermark_def or_str_def truthy_str_def split: option.splits if_splits)

text \<open>
  C5. In \<^verbatim>\<open>generateFromData\<close>, when the options reach the watermark step with a background
  description (defined and not empty, which is what the code tests), the watermark is
  that description, drawn without a call to the model, whatever \<^verbatim>\<open>watermarkPrompt\<close>
  holds. The step that asks the model is taken only when there is no such description,
  and then with the \<^verbatim>\<open>watermarkPrompt\<close> of the options. Options given with a description
  and without a background prompt reach the watermark step unchanged.
\<close>

theorem watermark_source:
  "(backgroundDescription (optionsAfterBackground client options) = Some d \<and> d \<noteq> []
      \<longrightarrow> mark (generateFromData client cd options) = WatermarkText d
          \<and> watermark_model_calls (mark (generateFromData client cd options)) = 0)
   \<and> (mark (generateFromData client cd options) = WatermarkFromModel p
      \<longrightarrow> \<not> truthy_str (backgroundDescription (optionsAfterBackground client options))
          \<and> watermarkPrompt options = Some p \<and> p \<noteq> [])
   \<and> (backgroundImagePrompt options = None
      \<longrightarrow> optionsAfterBackground client options = options)"
proof (intro conjI impI)
  assume a: "backgroundDescription (optionsAfterBackground client options) = Some d \<and> d \<noteq> []"
  then show m: "mark (generateFromData client cd options) = WatermarkText d"
    by (simp add: rendering_mark chooseWatermark_description)
  show "watermark_model_calls (mark (generateFromData client cd options)) = 0"
    by (simp add: m)
next
  assume a: "mark (generateFromData client cd options) = WatermarkFromModel p"
  then have c: "chooseWatermark (optionsAfterBackground client options) = WatermarkFromModel p"
    by (simp add: rendering_mark)
  from chooseWatermark_prompt [OF c]
  show "\<not> truthy_str (backgroundDescription (optionsAfterBackground client options))"
    and "watermarkPrompt options = Some p" and "p \<noteq> []"
    by (simp_all add: applyBackground_watermarkPrompt)
next
  assume "backgroundImagePrompt options = None"
  then show "optionsAfterBackground client options = options"
    by (rule applyBackground_unchanged)
qed

theorem watermark_source_witness:
  "mark (generateFromData None zero_border_chart both_sources) = WatermarkText ''blue gradient''
   \<and> watermark_model_calls (mark (generateFromData None zero_border_chart both_sources)) = 0
   \<and> mark (generateFromData None zero_border_chart prompt_only) = WatermarkFromModel ''quarterly sales''
   \<and> \<not> truthy_str (backgroundDescription (optionsAfterBackground None prompt_only))"
proof -
  have p: "backgroundImagePrompt both_sources = None"
    by (simp add: both_sources_def mk_options_def)
  have d: "backgroundDescription both_sources = Some ''blue gradient''"
    by (simp add: both_sources_def)
  note t = watermark_source [of None both_sources "''blue gradient''" zero_border_chart]
  from t p have "optionsAfterBackground None both_sources = both_sources" by blast
  with d have "backgroundDescription (optionsAfterBackground None both_sources) = Some ''blue gradient''
      \<and> ''blue gradient'' \<noteq> []" by simp
  with t have one: "mark (generateFromData None zero_border_chart both_sources) = WatermarkText ''blue gradient''
      \<and> watermark_model_calls (mark (generateFromData None zero_border_chart both_sources)) = 0"
    by blast
  have "optionsAfterBackground None prompt_only = prompt_only"
    by (simp add: applyBackground_unchanged prompt_only_def mk_options_def)
  then have m: "mark (generateFromData None zero_border_chart prompt_only)
      = WatermarkFromModel ''quarterly sales''"
    by (simp add: rendering_mark)
       (simp add: prompt_only_def mk_options_def chooseWatermark_def or_str_def truthy_str_def)
  note u = watermark_source [of None prompt_only _ zero_border_chart "''quarterly sales''"]
  from u m have "\<not> truthy_str (backgroundDescription (optionsAfterBackground None prompt_only))"
    by blast
  with one m show ?thesis by blast
qed

subsection \<open>Conversation history\<close>

lemma chat_fails_chart:
  "isChartRequest m \<Longrightarrow>
   llm [Some \<lparr>role = System, content = getChartPrompt m\<rparr>, Some \<lparr>role = User, content = m\<rparr>] = Inl err \<Longrightarrow>
   chat llm oi m h = \<lparr>reply = Inl err, historyAfter = h @ [Some \<lparr>role = User, content = m\<rparr>],
                       imageSpec = None\<rparr>"
  by (simp add: chat_def Let_def)

lemma chat_fails_plain:
  "\<not> isChartRequest m \<Longrightarrow> llm (h @ [Some \<lparr>role = User, content = m\<rparr>]) = Inl err \<Longrightarrow>
   chat llm oi m h = \<lparr>reply = Inl err, historyAfter = h @ [Some \<lparr>role = User, content = m\<rparr>],
                       imageSpec = None\<rparr>"
  by (simp add: chat_def Let_def)

lemma chat_succeeds_history:
  "reply (chat llm oi m h) = Inr r \<Longrightarrow>
   historyAfter (chat llm oi m h) =
     trimHistory (h @ [Some \<lparr>role = User, content = m\<rparr>] @ [Some \<lparr>role = Assistant, content = r\<rparr>])"
  by (cases "isChartRequest m")
     (auto simp: chat_def Let_def split: sum.splits)

lemma chat_history_cases:
  "historyAfter (chat llm oi m h) = h @ [Some \<lparr>role = User, content = m\<rparr>]
   \<or> (\<exists>r. historyAfter (chat llm oi m h) =
         trimHistory (h @ [Some \<lparr>role = User, content = m\<rparr>] @ [Some \<lparr>role = Assistant, content = r\<rparr>]))"
  by (cases "isChartRequest m")
     (auto simp: chat_def Let_def split: sum.splits)

text \<open>
  C6. When the model call inside \<^verbatim>\<open>chat\<close> throws, \<^verbatim>\<open>chat\<close> rejects with that error; the
  history it leaves is the history before the call with the user's turn appended, and
  nothing after it: no assistant turn.
\<close>

theorem chat_model_failure:
  "(if isChartRequest m
    then llm [Some \<lparr>role = System, content = getChartPrompt m\<rparr>, Some \<lparr>role = User, content = m\<rparr>]
    else llm (h @ [Some \<lparr>role = User, content = m\<rparr>])) = Inl err \<Longrightarrow>
   reply (chat llm oi m h) = Inl err
   \<and> historyAfter (chat llm oi m h) = h @ [Some \<lparr>role = User, content = m\<rparr>]
   \<and> imageSpec (chat llm oi m h) = None"
  by (cases "isChartRequest m") (simp_all add: chat_fails_chart chat_fails_plain)

theorem chat_model_failure_witness:
  "reply (chat failing_model False ''hello'' initialHistory) = Inl ''Ollama error: fetch failed''
   \<and> historyAfter (chat failing_model False ''hello'' initialHistory)
       = [systemTurn, Some \<lparr>role = User, content = ''hello''\<rparr>]"
proof -
  have "(if isChartRequest ''hello''
         then failing_model [Some \<lparr>role = System, content = getChartPrompt ''hello''\<rparr>,
                             Some \<lparr>role = User, content = ''hello''\<rparr>]
         else failing_model (initialHistory @ [Some \<lparr>role = User, content = ''hello''\<rparr>]))
        = Inl ''Ollama error: fetch failed''"
    by (simp only: failing_model_def if_cancel)
  from chat_model_failure [OF this, of False] show ?thesis
    by (simp add: initialHistory_def)
qed

lemma at_index_append: "h \<noteq> [] \<Longrightarrow> at_index (h @ xs) 0 = at_index h 0"
  by (cases h) (simp_all add: at_index_def)

lemma at_index_Cons: "at_index (x # xs) 0 = x"
  by (simp add: at_index_def)

lemma trimHistory_first: "at_index (trimHistory h) 0 = at_index h 0"
  by (simp add: trimHistory_def at_index_Cons)

lemma trimHistory_length: "length (trimHistory h) \<le> 21"
  by (simp add: trimHistory_def slice_last_def)

lemma trimHistory_drops_oldest:
  "21 < length h \<Longrightarrow> trimHistory h = at_index h 0 # drop (length h - 20) h
     \<and> length (trimHistory h) = 21"
  by (simp add: trimHistory_def slice_last_def)

lemma trimHistory_keeps_short: "length h \<le> 21 \<Longrightarrow> trimHistory h = h"
  by (simp add: trimHistory_def)

lemma systemTurn_nonempty: "at_index h 0 = systemTurn \<Longrightarrow> h \<noteq> []"
  by (auto simp: at_index_def systemTurn_def)

lemma chat_keeps_first:
  assumes "at_index h 0 = systemTurn"
  shows "at_index (historyAfter (chat llm oi m h)) 0 = systemTurn"
proof -
  from assms have ne: "h \<noteq> []" by (rule systemTurn_nonempty)
  from chat_history_cases [of llm oi m h] show ?thesis
  proof
    assume "historyAfter (chat llm oi m h) = h @ [Some \<lparr>role = User, content = m\<rparr>]"
    with ne assms show ?thesis by (simp add: at_index_append)
  next
    assume "\<exists>r. historyAfter (chat llm oi m h) =
         trimHistory (h @ [Some \<lparr>role = User, content = m\<rparr>] @ [Some \<lparr>role = Assistant, content = r\<rparr>])"
    then obtain r where "historyAfter (chat llm oi m h) =
         trimHistory (h @ [Some \<lparr>role = User, content = m\<rparr>] @ [Some \<lparr>role = Assistant, content = r\<rparr>])"
      by blast
    with ne assms show ?thesis by (simp add: trimHistory_first at_index_append)
  qed
qed

lemma clear_keeps_first: "at_index h 0 = systemTurn \<Longrightarrow> clearHistory h = [systemTurn]"
  by (simp add: clearHistory_def)

lemma agent_step_keeps_first:
  "at_index h 0 = systemTurn \<Longrightarrow> at_index (agent_step h c) 0 = systemTurn"
  by (cases c) (simp_all add: chat_keeps_first clear_keeps_first at_index_Cons)

lemma foldl_keeps_first:
  "at_index h 0 = systemTurn \<Longrightarrow> at_index (foldl agent_step h calls) 0 = systemTurn"
  by (induction calls arbitrary: h) (simp_all add: agent_step_keeps_first)

lemma agent_run_first: "at_index (agent_run calls) 0 = systemTurn"
  by (simp add: agent_run_def foldl_keeps_first initialHistory_def at_index_Cons)

lemma agent_run_snoc: "agent_run (calls @ [c]) = agent_step (agent_run calls) c"
  by (simp add: agent_run_def)

lemma chat_success_length:
  "reply (chat llm oi m h) = Inr r \<Longrightarrow> length (historyAfter (chat llm oi m h)) \<le> 21"
  by (simp add: chat_succeeds_history trimHistory_length)

lemma answering_turn:
  "historyAfter (chat answering_model oi ''hello'' h) =
     trimHistory (h @ [Some \<lparr>role = User, content = ''hello''\<rparr>,
                       Some \<lparr>role = Assistant, content = ''Hello!''\<rparr>])"
proof -
  have "reply (chat answering_model oi ''hello'' h) = Inr ''Hello!''"
    by (cases "isChartRequest ''hello''") (simp_all add: chat_def Let_def answering_model_def)
  from chat_succeeds_history [OF this] show ?thesis by simp
qed

lemma failing_turn:
  "historyAfter (chat failing_model oi m h) = h @ [Some \<lparr>role = User, content = m\<rparr>]"
  by (cases "isChartRequest m")
     (simp_all add: chat_fails_chart chat_fails_plain failing_model_def)

lemma answering_turns_length:
  "length h + 2 * n \<le> 21 \<Longrightarrow>
   length (foldl agent_step h (replicate n (Chat answering_model False ''hello''))) = length h + 2 * n"
proof (induction n arbitrary: h)
  case 0
  then show ?case by simp
next
  case (Suc n)
  let ?h' = "h @ [Some \<lparr>role = User, content = ''hello''\<rparr>,
                  Some \<lparr>role = Assistant, content = ''Hello!''\<rparr>]"
  from Suc.prems have "length ?h' \<le> 21" by simp
  then have step: "agent_step h (Chat answering_model False ''hello'') = ?h'"
    by (simp add: answering_turn trimHistory_keeps_short)
  have "length (foldl agent_step ?h' (replicate n (Chat answering_model False ''hello'')))
      = length ?h' + 2 * n"
    using Suc.prems by (intro Suc.IH) simp
  with step show ?case by simp
qed

text \<open>
  C7 as stated fails after a turn whose model call throws: the user's turn is appended and
  the history is not trimmed. Ten answered turns fill the history to 21 entries; the
  failed turn makes it 22.
\<close>

theorem history_cap_counterexample:
  "length (agent_run ten_turns_then_failure) = 22
   \<and> \<not> length (agent_run ten_turns_then_failure) \<le> 21"
proof -
  have "length (agent_run (replicate 10 (Chat answering_model False ''hello''))) = 21"
    unfolding agent_run_def
    by (subst answering_turns_length) (simp_all add: initialHistory_def)
  then have "length (agent_run ten_turns_then_failure) = 22"
    by (simp add: ten_turns_then_failure_def agent_run_snoc failing_turn)
  then show ?thesis by simp
qed

text \<open>
  C7 (amended). After any sequence of \<^verbatim>\<open>chat\<close> and \<^verbatim>\<open>clearHistory\<close> calls the first
  element of the history is the system turn. After a \<^verbatim>\<open>chat\<close> turn whose model call
  returns, the history has at most 21 entries, and after \<^verbatim>\<open>clearHistory\<close> it is the system
  turn alone. When the history exceeds 21 entries, trimming keeps the first element and
  the last 20 and drops the oldest turns after the first.
\<close>

theorem history_invariant:
  "at_index (agent_run calls) 0 = systemTurn
   \<and> (reply (chat llm oi m (agent_run calls)) = Inr r
        \<longrightarrow> length (agent_run (calls @ [Chat llm oi m])) \<le> 21)
   \<and> agent_run (calls @ [Clear]) = [systemTurn]
   \<and> (21 < length h \<longrightarrow> trimHistory h = at_index h 0 # drop (length h - 20) h
                          \<and> length (trimHistory h) = 21)"
proof (intro conjI impI)
  show "at_index (agent_run calls) 0 = systemTurn" by (rule agent_run_first)
  show "agent_run (calls @ [Clear]) = [systemTurn]"
    by (simp add: agent_run_snoc clear_keeps_first agent_run_first)
next
  assume "reply (chat llm oi m (agent_run calls)) = Inr r"
  then show "length (agent_run (calls @ [Chat llm oi m])) \<le> 21"
    by (simp add: agent_run_snoc chat_success_length)
next
  assume "21 < length h"
  then show "trimHistory h = at_index h 0 # drop (length h - 20) h"
    and "length (trimHistory h) = 21"
    by (simp_all add: trimHistory_drops_oldest)
qed

theorem history_invariant_witness:
  "at_index (agent_run ten_turns_then_failure) 0 = systemTurn
   \<and> length (agent_run (ten_turns_then_failure @ [Chat answering_model False ''hello''])) \<le> 21
   \<and> agent_run (ten_turns_then_failure @ [Clear]) = [systemTurn]
   \<and> length (trimHistory (agent_run ten_turns_then_failure)) = 21"
proof -
  have r: "reply (chat answering_model False ''hello'' (agent_run ten_turns_then_failure)) = Inr ''Hello!''"
    by (cases "isChartRequest ''hello''") (simp_all add: chat_def Let_def answering_model_def)
  have "length (agent_run (replicate 10 (Chat answering_model False ''hello''))) = 21"
    unfolding agent_run_def
    by (subst answering_turns_length) (simp_all add: initialHistory_def)
  then have l: "21 < length (agent_run ten_turns_then_failure)"
    by (simp add: ten_turns_then_failure_def agent_run_snoc failing_turn)
  note t = history_invariant [of ten_turns_then_failure answering_model False "''hello''" "''Hello!''"
      "agent_run ten_turns_then_failure"]
  from t r l show ?thesis by blast
qed

subsection \<open>The direct path\<close>

lemma generateAIChart_throws:
  "gen (getChartPrompt prompt) = Inr response \<Longrightarrow> parseChartDataFromText response = None \<Longrightarrow>
   generateAIChart gen prompt = Inl ''Failed to generate valid chart specification from AI response''"
  by (simp add: generateAIChart_def)

lemma chat_falls_back:
  "isChartRequest m \<Longrightarrow>
   llm [Some \<lparr>role = System, content = getChartPrompt m\<rparr>, Some \<lparr>role = User, content = m\<rparr>]
     = Inr response \<Longrightarrow>
   parseChartDataFromText response = None \<Longrightarrow>
   reply (chat llm True m h) = Inr response
   \<and> imageSpec (chat llm True m h)
       = Some \<lparr>spec_data = spec_data (generateFallbackChart m),
                 spec_options = chartOptionsWithExtras (spec_options (generateFallbackChart m)) m\<rparr>"
  by (simp add: chat_def Let_def)

text \<open>
  C9. When the extractor fails on the model's response, \<^verbatim>\<open>generateAIChart\<close> throws
  (whatever the prompt) and draws nothing. On the chat path the same response makes
  \<^verbatim>\<open>chat\<close> return normally and generate the image from the data of the fallback chart,
  with the fallback chart's options and the watermark and background prompts taken from
  the user's message.
\<close>

theorem generateAIChart_no_fallback:
  "parseChartDataFromText response = None \<Longrightarrow>
   (gen (getChartPrompt prompt) = Inr response
      \<longrightarrow> generateAIChart gen prompt
            = Inl ''Failed to generate valid chart specification from AI response'')
   \<and> (isChartRequest m
        \<and> llm [Some \<lparr>role = System, content = getChartPrompt m\<rparr>, Some \<lparr>role = User, content = m\<rparr>]
            = Inr response
      \<longrightarrow> reply (chat llm True m h) = Inr response
          \<and> imageSpec (chat llm True m h)
              = Some \<lparr>spec_data = spec_data (generateFallbackChart m),
                        spec_options =
                          chartOptionsWithExtras (spec_options (generateFallbackChart m)) m\<rparr>)"
  using generateAIChart_throws [of gen prompt response] chat_falls_back [of m llm response h]
  by blast

lemma hello_not_parsed: "parseChartDataFromText ''Hello!'' = None"
  by code_simp

lemma blue_is_request: "isChartRequest blue_request"
  by code_simp

lemma blue_fallback: "generateFallbackChart blue_request = blue_fallback_chart"
  by code_simp

lemma blue_extras:
  "chartOptionsWithExtras (spec_options blue_fallback_chart) blue_request = blue_options"
  by code_simp

text \<open>
  The request \<^verbatim>\<open>draw a chart with blue background\<close> answered by \<^verbatim>\<open>Hello!\<close>: the direct path
  throws; the chat path draws the five generic categories, with \<^verbatim>\<open>drw with blue bckground\<close>
  as the watermark prompt and \<^verbatim>\<open>blue background\<close> as the background prompt.
\<close>

theorem generateAIChart_no_fallback_witness:
  "generateAIChart answering_generate blue_request
     = Inl ''Failed to generate valid chart specification from AI response''
   \<and> reply (chat answering_model True blue_request initialHistory) = Inr ''Hello!''
   \<and> imageSpec (chat answering_model True blue_request initialHistory)
       = Some \<lparr>spec_data = spec_data blue_fallback_chart, spec_options = blue_options\<rparr>"
proof -
  have g: "answering_generate (getChartPrompt blue_request) = Inr ''Hello!''"
    by (simp only: answering_generate_def)
  have l: "answering_model [Some \<lparr>role = System, content = getChartPrompt blue_request\<rparr>,
                            Some \<lparr>role = User, content = blue_request\<rparr>] = Inr ''Hello!''"
    by (simp only: answering_model_def)
  from generateAIChart_no_fallback [OF hello_not_parsed, of answering_generate blue_request
      blue_request answering_model initialHistory] g l blue_is_request
  have "generateAIChart answering_generate blue_request
     = Inl ''Failed to generate valid chart specification from AI response''
   \<and> reply (chat answering_model True blue_request initialHistory) = Inr ''Hello!''
   \<and> imageSpec (chat answering_model True blue_request initialHistory)
       = Some \<lparr>spec_data = spec_data (generateFallbackChart blue_request),
                 spec_options =
                   chartOptionsWithExtras (spec_options (generateFallbackChart blue_request))
                     blue_request\<rparr>"
    by blast
  then show ?thesis by (simp only: blue_fallback blue_extras)
qed

subsection \<open>The extractor's validation\<close>

















subsection \<open>The order of the patterns\<close>

lemma fence_then_object_candidates:
  "candidate re_json_fence fence_then_object = Some ''x''"
  "JSON_parse ''x'' = None"
  by code_simp+

lemma fence_then_object_code: "parseChartDataFromText fence_then_object = None"
  by code_simp

lemma fence_then_object_spec:
  "first_parseable fence_then_object =
     Some (JObject [(''labels'', JArray [JString ''a'']),
                    (''datasets'', JArray [JObject [(''label'', JString ''s''),
                                                    (''data'', JArray [JNumber 1])]])])"
  by code_simp

text \<open>
  C2 as stated fails: the code stops at the first pattern that matches, parseable or not.
  Here the json fence matches and holds \<open>x\<close>, so the result is \<^verbatim>\<open>null\<close>, although the third
  pattern yields an object that parses.
\<close>

theorem first_parseable_counterexample:
  "parseChartDataFromText fence_then_object = None
   \<and> parsedJson fence_then_object = None
   \<and> first_parseable fence_then_object =
       Some (JObject [(''labels'', JArray [JString ''a'']),
                      (''datasets'', JArray [JObject [(''label'', JString ''s''),
                                                      (''data'', JArray [JNumber 1])]])])
   \<and> parsedJson fence_then_object \<noteq> first_parseable fence_then_object"
proof -
  have "parsedJson fence_then_object = None" by code_simp
  with fence_then_object_code fence_then_object_spec show ?thesis by simp
qed

lemma candidate_None: "candidate re text = None \<longleftrightarrow> str_match re text = None"
  by (simp add: candidate_def split: option.splits)

lemma candidate_Some: "candidate re text = Some s \<Longrightarrow> \<exists>m. str_match re text = Some m \<and> jsonStr m = s"
  by (auto simp: candidate_def split: option.splits)

lemma selected_a: "candidate re_json_fence text = Some s \<Longrightarrow> parsedJson text = JSON_parse s"
  by (auto simp: parsedJson_def jsonMatch_def or_else_def dest!: candidate_Some)

lemma selected_b:
  "candidate re_json_fence text = None \<Longrightarrow> candidate re_any_fence text = Some s \<Longrightarrow>
   parsedJson text = JSON_parse s"
  by (auto simp: parsedJson_def jsonMatch_def or_else_def candidate_None dest!: candidate_Some)

lemma selected_c:
  "candidate re_json_fence text = None \<Longrightarrow> candidate re_any_fence text = None \<Longrightarrow>
   candidate re_labels_datasets text = Some s \<Longrightarrow> parsedJson text = JSON_parse s"
  by (auto simp: parsedJson_def jsonMatch_def or_else_def candidate_None dest!: candidate_Some)

lemma selected_d:
  "candidate re_json_fence text = None \<Longrightarrow> candidate re_any_fence text = None \<Longrightarrow>
   candidate re_labels_datasets text = None \<Longrightarrow> candidate re_braces text = Some s \<Longrightarrow>
   parsedJson text = JSON_parse s"
  by (auto simp: parsedJson_def jsonMatch_def or_else_def candidate_None dest!: candidate_Some)

lemma selected_none:
  "candidate re_json_fence text = None \<Longrightarrow> candidate re_any_fence text = None \<Longrightarrow>
   candidate re_labels_datasets text = None \<Longrightarrow> candidate re_braces text = None \<Longrightarrow>
   parsedJson text = None"
  by (simp add: parsedJson_def jsonMatch_def or_else_def candidate_None)

lemma parse_follows_parsedJson:
  "parsedJson text = None \<Longrightarrow> parseChartDataFromText text = None"
  by (simp add: parseChartDataFromText_def)

text \<open>
  C2 (amended). The extractor tries the four patterns in order and stops at the first one
  that matches: the text of that pattern alone goes to \<^verbatim>\<open>JSON.parse\<close>. When that text
  does not parse, the result is \<^verbatim>\<open>null\<close>, whatever the later patterns would have found;
  when no pattern matches, the result is \<^verbatim>\<open>null\<close>.
\<close>

theorem first_matching_pattern:
  "(candidate re_json_fence text = Some s \<longrightarrow> parsedJson text = JSON_parse s)
   \<and> (candidate re_json_fence text = None \<and> candidate re_any_fence text = Some s
        \<longrightarrow> parsedJson text = JSON_parse s)
   \<and> (candidate re_json_fence text = None \<and> candidate re_any_fence text = None
        \<and> candidate re_labels_datasets text = Some s
        \<longrightarrow> parsedJson text = JSON_parse s)
   \<and> (candidate re_json_fence text = None \<and> candidate re_any_fence text = None
        \<and> candidate re_labels_datasets text = None \<and> candidate re_braces text = Some s
        \<longrightarrow> parsedJson text = JSON_parse s)
   \<and> (candidate re_json_fence text = None \<and> candidate re_any_fence text = None
        \<and> candidate re_labels_datasets text = None \<and> candidate re_braces text = None
        \<longrightarrow> parsedJson text = None)
   \<and> (parsedJson text = None \<longrightarrow> parseChartDataFromText text = None)"
  using selected_a [of "text" s] selected_b [of "text" s] selected_c [of "text" s]
    selected_d [of "text" s] selected_none [of "text"] parse_follows_parsedJson [of "text"]
  by blast

lemma plain_fence_candidates:
  "candidate re_json_fence plain_fence_response = None"
  \<open>candidate re_any_fence plain_fence_response = Some ''{"labels":["a"],"data":[1]}''\<close>
  by code_simp+

lemma bare_object_candidates:
  "candidate re_json_fence bare_object_response = None"
  "candidate re_any_fence bare_object_response = None"
  \<open>candidate re_labels_datasets bare_object_response
     = Some ''{"labels":["a"],"datasets":[{"data":[1]}]}''\<close>
  by code_simp+

lemma bare_data_candidates:
  "candidate re_json_fence bare_data_response = None"
  "candidate re_any_fence bare_data_response = None"
  "candidate re_labels_datasets bare_data_response = None"
  \<open>candidate re_braces bare_data_response = Some ''{"labels":["a"],"data":[1]}''\<close>
  by code_simp+

lemma hello_candidates:
  "candidate re_json_fence ''Hello!'' = None"
  "candidate re_any_fence ''Hello!'' = None"
  "candidate re_labels_datasets ''Hello!'' = None"
  "candidate re_braces ''Hello!'' = None"
  by code_simp+

theorem first_matching_pattern_witness:
  "parsedJson fence_then_object = JSON_parse ''x''
   \<and> parseChartDataFromText fence_then_object = None
   \<and> parsedJson plain_fence_response = JSON_parse ''{\"labels\":[\"a\"],\"data\":[1]}''
   \<and> parsedJson bare_object_response = JSON_parse ''{\"labels\":[\"a\"],\"datasets\":[{\"data\":[1]}]}''
   \<and> parsedJson bare_data_response = JSON_parse ''{\"labels\":[\"a\"],\"data\":[1]}''
   \<and> parsedJson ''Hello!'' = None"
proof -
  from first_matching_pattern [of fence_then_object "''x''"] fence_then_object_candidates
  have a: "parsedJson fence_then_object = JSON_parse ''x''"
    and a': "parseChartDataFromText fence_then_object = None" by simp_all
  from first_matching_pattern [of plain_fence_response] plain_fence_candidates
  have b: "parsedJson plain_fence_response = JSON_parse ''{\"labels\":[\"a\"],\"data\":[1]}''"
    by blast
  from first_matching_pattern [of bare_object_response] bare_object_candidates
  have c: "parsedJson bare_object_response = JSON_parse ''{\"labels\":[\"a\"],\"datasets\":[{\"data\":[1]}]}''"
    by blast
  from first_matching_pattern [of bare_data_response] bare_data_candidates
  have d: "parsedJson bare_data_response = JSON_parse ''{\"labels\":[\"a\"],\"data\":[1]}''"
    by blast
  from first_matching_pattern [of "''Hello!''"] hello_candidates
  have e: "parsedJson ''Hello!'' = None" by blast
  from a a' b c d e show ?thesis by blast
qed

subsection \<open>Re-parsing the serialization\<close>

paragraph \<open>Printing and reading numbers\<close>























paragraph \<open>Printing and reading strings\<close>




lemma parse_chars_backslash:
  "e \<noteq> CHR ''u'' \<Longrightarrow> unescape e = Some ch \<Longrightarrow>
   parse_chars (CHR 0x5C # e # tail) = cons_fst ch (parse_chars tail)"
  by simp














paragraph \<open>Reading what was printed\<close>



















paragraph \<open>The patterns on a text without a fence\<close>








paragraph \<open>Greedy repetition of any character\<close>




paragraph \<open>The labels-and-datasets pattern on a printed object\<close>












paragraph \<open>Extracting from the serialization\<close>
























subsection \<open>The depth budget of the parser\<close>

text \<open>
  Every sub-parser that succeeds consumes input, so the budget \<open>JSON_parse\<close> starts with is
  never the reason for a failure: with any larger budget the result is the same.
\<close>

lemma skip_ws_length: "length (skip_ws s) \<le> length s"
  by (simp add: skip_ws_def length_dropWhile_le)

lemma cons_fst_Some: "cons_fst x r = Some (ys, rest) \<Longrightarrow> \<exists>xs. r = Some (xs, rest) \<and> ys = x # xs"
  by (auto simp: cons_fst_def split: option.splits)

lemma parse_chars_step:
  assumes "parse_chars (c # cs) = Some (str, r)"
  shows "r = cs \<or> (\<exists>t xs pre. cs = pre @ t \<and> parse_chars t = Some (xs, r))"
proof (cases "c = CHR 0x22")
  case True
  with assms show ?thesis by simp
next
  case q: False
  show ?thesis
  proof (cases "c = CHR 0x5C")
    case True
    show ?thesis
    proof (cases cs)
      case Nil
      with q True assms show ?thesis by simp
    next
      case (Cons e rr)
      show ?thesis
      proof (cases "e = CHR ''u''")
        case u: True
        from q True Cons u assms obtain h1 h2 h3 h4 r' ch where rr: "rr = h1 # h2 # h3 # h4 # r'"
          and pc: "cons_fst ch (parse_chars r') = Some (str, r)"
          by (auto split: list.splits option.splits)
        from cons_fst_Some [OF pc] obtain xs where x: "parse_chars r' = Some (xs, r)" by blast
        from Cons rr have "cs = [e, h1, h2, h3, h4] @ r'" by simp
        with x show ?thesis by blast
      next
        case nu: False
        from q True Cons nu assms obtain ch where
          pc: "cons_fst ch (parse_chars rr) = Some (str, r)"
          by (auto split: option.splits)
        from cons_fst_Some [OF pc] obtain xs where x: "parse_chars rr = Some (xs, r)" by blast
        from Cons have "cs = [e] @ rr" by simp
        with x show ?thesis by blast
      qed
    qed
  next
    case False
    with q assms have pc: "cons_fst c (parse_chars cs) = Some (str, r)"
      by (auto split: if_splits)
    from cons_fst_Some [OF pc] obtain xs where x: "parse_chars cs = Some (xs, r)" by blast
    have "cs = [] @ cs" by simp
    with x show ?thesis by blast
  qed
qed

lemma parse_chars_shorter: "parse_chars s = Some (str, r) \<Longrightarrow> length r < length s"
proof (induction s arbitrary: str r rule: length_induct)
  case (1 s)
  show ?case
  proof (cases s)
    case Nil
    with 1(2) show ?thesis by simp
  next
    case (Cons c cs)
    with 1(2) parse_chars_step [of c cs str r]
    consider "r = cs" | t xs pre where "cs = pre @ t" "parse_chars t = Some (xs, r)" by blast
    then show ?thesis
    proof cases
      case 1
      with Cons show ?thesis by simp
    next
      case 2
      with Cons have "length t < length s" by simp
      with 1(1) 2(2) have "length r < length t" by blast
      with 2(1) Cons show ?thesis by simp
    qed
  qed
qed

lemma parse_digits_shorter: "parse_digits s = Some (ds, r) \<Longrightarrow> length r < length s"
proof -
  assume a: "parse_digits s = Some (ds, r)"
  then have r: "r = dropWhile is_digit s" and ne: "takeWhile is_digit s \<noteq> []"
    by (auto simp: parse_digits_def split: list.splits)
  have "length (takeWhile is_digit s) + length (dropWhile is_digit s) = length s"
    by (metis length_append takeWhile_dropWhile_id)
  with ne r show ?thesis by (cases "takeWhile is_digit s") simp_all
qed

lemma parse_int_part_shorter: "parse_int_part s = Some (n, r) \<Longrightarrow> length r < length s"
  by (cases s) (auto simp: parse_int_part_def split: if_splits option.splits
      dest: parse_digits_shorter)

lemma parse_frac_shorter: "parse_frac s = Some (q, r) \<Longrightarrow> length r \<le> length s"
  by (cases s) (auto simp: parse_frac_def split: if_splits option.splits
      dest!: parse_digits_shorter)

lemma parse_exp_shorter: "parse_exp s = Some (q, r) \<Longrightarrow> length r \<le> length s"
  by (cases s) (auto simp: parse_exp_def split: if_splits option.splits list.splits
      dest!: parse_digits_shorter)

lemma parse_unsigned_shorter: "parse_unsigned s = Some (q, r) \<Longrightarrow> length r < length s"
proof -
  assume "parse_unsigned s = Some (q, r)"
  then obtain ip s1 fr s2 ex where "parse_int_part s = Some (ip, s1)"
    "parse_frac s1 = Some (fr, s2)" "parse_exp s2 = Some (ex, r)"
    by (auto simp: parse_unsigned_def split: option.splits)
  with parse_int_part_shorter [of s ip s1] parse_frac_shorter [of s1 fr s2]
    parse_exp_shorter [of s2 ex r] show ?thesis by simp
qed

lemma parse_number_shorter: "parse_number s = Some (q, r) \<Longrightarrow> length r < length s"
  by (cases s) (auto simp: parse_number_def split: if_splits option.splits
      dest!: parse_unsigned_shorter)

lemma parse_scalar_shorter: "parse_scalar s = Some (v, r) \<Longrightarrow> length r < length s"
proof (cases s)
  case Nil
  assume "parse_scalar s = Some (v, r)"
  with Nil show ?thesis by (simp add: parse_scalar_def)
next
  case (Cons c cs)
  assume a: "parse_scalar s = Some (v, r)"
  show ?thesis
  proof (cases "c = CHR 0x22")
    case True
    with a Cons obtain str where "parse_chars cs = Some (str, r)"
      by (auto simp: parse_scalar_def split: option.splits)
    from parse_chars_shorter [OF this] Cons show ?thesis by simp
  next
    case False
    with a Cons consider "r = drop 4 s" | "r = drop 5 s" | q where "parse_number s = Some (q, r)"
      by (auto simp: parse_scalar_def split: option.splits if_splits)
    then show ?thesis
    proof cases
      case 1
      with Cons show ?thesis by simp
    next
      case 2
      with Cons show ?thesis by simp
    next
      case 3
      then show ?thesis by (rule parse_number_shorter)
    qed
  qed
qed

lemma cons_fst_iff:
  "cons_fst x r = Some (ys, rest) \<longleftrightarrow> (\<exists>xs. r = Some (xs, rest) \<and> ys = x # xs)"
  by (auto simp: cons_fst_def split: option.splits)

lemma skip_ws_Cons_shorter: "skip_ws t = d # t' \<Longrightarrow> length t' < length t"
  using skip_ws_length [of t] by simp

lemma parse_shorter:
  "(\<forall>s v r. parse_value n s = Some (v, r) \<longrightarrow> length r < length s)
   \<and> (\<forall>s vs r. parse_elements n s = Some (vs, r) \<longrightarrow> length r < length s)
   \<and> (\<forall>s kvs r. parse_members n s = Some (kvs, r) \<longrightarrow> length r < length s)"
proof (induction n)
  case 0
  show ?case by simp
next
  case (Suc n)
  then have IHv: "\<And>s v r. parse_value n s = Some (v, r) \<Longrightarrow> length r < length s"
    and IHe: "\<And>s vs r. parse_elements n s = Some (vs, r) \<Longrightarrow> length r < length s"
    and IHm: "\<And>s kvs r. parse_members n s = Some (kvs, r) \<Longrightarrow> length r < length s"
    by blast+
  show ?case
  proof (intro conjI allI impI)
    fix s v r
    assume a: "parse_value (Suc n) s = Some (v, r)"
    show "length r < length s"
    proof (cases s)
      case Nil
      with a show ?thesis by simp
    next
      case (Cons c t)
      with a consider
          (closed) d where "skip_ws t = d # r"
        | (elements) d t' vs where "skip_ws t = d # t'" "parse_elements n (d # t') = Some (vs, r)"
        | (members) d t' kvs where "skip_ws t = d # t'" "parse_members n (d # t') = Some (kvs, r)"
        | (scalar) "parse_scalar s = Some (v, r)"
        by (auto split: list.splits if_splits option.splits)
      then show ?thesis
      proof cases
        case closed
        from skip_ws_Cons_shorter [OF this] Cons show ?thesis by simp
      next
        case elements
        from IHe [OF elements(2)] skip_ws_length [of t] elements(1) Cons show ?thesis by simp
      next
        case members
        from IHm [OF members(2)] skip_ws_length [of t] members(1) Cons show ?thesis by simp
      next
        case scalar
        then show ?thesis by (rule parse_scalar_shorter)
      qed
    qed
  next
    fix s vs r
    assume a: "parse_elements (Suc n) s = Some (vs, r)"
    then obtain v r1 d r2 where v: "parse_value n s = Some (v, r1)" and d: "skip_ws r1 = d # r2"
      and rest: "r = r2 \<or> (\<exists>ws. parse_elements n (skip_ws r2) = Some (ws, r))"
      by (auto simp: cons_fst_iff split: list.splits if_splits option.splits)
    from IHv [OF v] skip_ws_Cons_shorter [OF d] have l2: "length r2 < length s" by simp
    from rest show "length r < length s"
    proof
      assume "r = r2"
      with l2 show ?thesis by simp
    next
      assume "\<exists>ws. parse_elements n (skip_ws r2) = Some (ws, r)"
      then obtain ws where "parse_elements n (skip_ws r2) = Some (ws, r)" by blast
      from IHe [OF this] skip_ws_length [of r2] l2 show ?thesis by simp
    qed
  next
    fix s kvs r
    assume a: "parse_members (Suc n) s = Some (kvs, r)"
    then obtain q t k r1 col r2 v r3 d r4 where s: "s = q # t"
      and k: "parse_chars t = Some (k, r1)" and c: "skip_ws r1 = col # r2"
      and v: "parse_value n (skip_ws r2) = Some (v, r3)" and d: "skip_ws r3 = d # r4"
      and rest: "r = r4 \<or> (\<exists>ws. parse_members n (skip_ws r4) = Some (ws, r))"
      by (auto simp: cons_fst_iff split: list.splits if_splits option.splits)
    from parse_chars_shorter [OF k] skip_ws_Cons_shorter [OF c] skip_ws_length [of r2]
      IHv [OF v] skip_ws_Cons_shorter [OF d] s
    have l4: "length r4 < length s" by simp
    from rest show "length r < length s"
    proof
      assume "r = r4"
      with l4 show ?thesis by simp
    next
      assume "\<exists>ws. parse_members n (skip_ws r4) = Some (ws, r)"
      then obtain ws where "parse_members n (skip_ws r4) = Some (ws, r)" by blast
      from IHm [OF this] skip_ws_length [of r4] l4 show ?thesis by simp
    qed
  qed
qed

lemma parse_value_shorter: "parse_value n s = Some (v, r) \<Longrightarrow> length r < length s"
  using parse_shorter [of n] by blast

lemma fuel_stable:
  "(\<forall>s. 2 * length s \<le> n \<longrightarrow> parse_value (Suc n) s = parse_value n s)
   \<and> (\<forall>s. 2 * length s + 1 \<le> n \<longrightarrow> parse_elements (Suc n) s = parse_elements n s)
   \<and> (\<forall>s. 2 * length s + 1 \<le> n \<longrightarrow> parse_members (Suc n) s = parse_members n s)"
proof (induction n)
  case 0
  show ?case by simp
next
  case (Suc n)
  then have IHv: "\<And>s. 2 * length s \<le> n \<Longrightarrow> parse_value (Suc n) s = parse_value n s"
    and IHe: "\<And>s. 2 * length s + 1 \<le> n \<Longrightarrow> parse_elements (Suc n) s = parse_elements n s"
    and IHm: "\<And>s. 2 * length s + 1 \<le> n \<Longrightarrow> parse_members (Suc n) s = parse_members n s"
    by blast+
  show ?case
  proof (intro conjI allI impI)
    fix s :: string
    assume b: "2 * length s \<le> Suc n"
    show "parse_value (Suc (Suc n)) s = parse_value (Suc n) s"
    proof (cases s)
      case Nil
      then show ?thesis by simp
    next
      case (Cons c t)
      have e: "parse_elements (Suc n) (d # t') = parse_elements n (d # t')"
        and m: "parse_members (Suc n) (d # t') = parse_members n (d # t')"
        if "skip_ws t = d # t'" for d t'
      proof -
        from that skip_ws_length [of t] Cons b have "2 * length (d # t') + 1 \<le> n" by simp
        then show "parse_elements (Suc n) (d # t') = parse_elements n (d # t')"
          and "parse_members (Suc n) (d # t') = parse_members n (d # t')"
          by (rule IHe, rule IHm)
      qed
      note L = parse_value.simps(2) [of "Suc n" "c # t"] and R = parse_value.simps(2) [of n "c # t"]
      show ?thesis
      proof (cases "skip_ws t")
        case Nil
        show ?thesis unfolding Cons by (simp only: L R Nil list.case)
      next
        case sk: (Cons d t')
        show ?thesis unfolding Cons by (simp only: L R sk list.case e [OF sk] m [OF sk])
      qed
    qed
  next
    fix s :: string
    assume b: "2 * length s + 1 \<le> Suc n"
    then have v: "parse_value (Suc n) s = parse_value n s" by (intro IHv) simp
    note L = parse_elements.simps(2) [of "Suc n" s] and R = parse_elements.simps(2) [of n s]
    show "parse_elements (Suc (Suc n)) s = parse_elements (Suc n) s"
    proof (cases "parse_value n s")
      case None
      show ?thesis by (simp only: L R v None option.case)
    next
      case (Some vr)
      obtain v' r where vr: "vr = (v', r)" by (cases vr)
      from Some vr have l: "length r < length s" by (simp add: parse_value_shorter)
      show ?thesis
      proof (cases "skip_ws r")
        case Nil
        show ?thesis by (simp only: L R v Some vr option.case prod.case Nil list.case)
      next
        case (Cons d r')
        from skip_ws_Cons_shorter [OF Cons] skip_ws_length [of r'] l b
        have "2 * length (skip_ws r') + 1 \<le> n" by simp
        from IHe [OF this]
        show ?thesis by (simp only: L R v Some vr option.case prod.case Cons list.case)
      qed
    qed
  next
    fix s :: string
    assume b: "2 * length s + 1 \<le> Suc n"
    show "parse_members (Suc (Suc n)) s = parse_members (Suc n) s"
    proof (cases s)
      case Nil
      then show ?thesis by simp
    next
      case s: (Cons q t)
      note L = parse_members.simps(2) [of "Suc n" "q # t"] and R = parse_members.simps(2) [of n "q # t"]
      show ?thesis
      proof (cases "parse_chars t")
        case None
        show ?thesis unfolding s by (simp only: L R None option.case list.case)
      next
        case (Some kr)
        obtain k r1 where kr: "kr = (k, r1)" by (cases kr)
        from Some kr have l1: "length r1 < length t" by (simp add: parse_chars_shorter)
        show ?thesis
        proof (cases "skip_ws r1")
          case Nil
          show ?thesis unfolding s
            by (simp only: L R Some kr option.case prod.case Nil list.case)
        next
          case c: (Cons col r2)
          from skip_ws_Cons_shorter [OF c] skip_ws_length [of r2] l1 s b
          have l2: "length (skip_ws r2) + 2 < length s" by simp
          with b have "2 * length (skip_ws r2) \<le> n" by simp
          from IHv [OF this] have v: "parse_value (Suc n) (skip_ws r2) = parse_value n (skip_ws r2)" .
          show ?thesis
          proof (cases "parse_value n (skip_ws r2)")
            case None
            show ?thesis unfolding s
              by (simp only: L R Some kr option.case prod.case c list.case v None)
          next
            case sv: (Some vr)
            obtain v' r3 where vr: "vr = (v', r3)" by (cases vr)
            from sv vr have l3: "length r3 < length (skip_ws r2)" by (simp add: parse_value_shorter)
            show ?thesis
            proof (cases "skip_ws r3")
              case Nil
              show ?thesis unfolding s
                by (simp only: L R Some kr option.case prod.case c list.case v sv vr Nil)
            next
              case d: (Cons d r4)
              from skip_ws_Cons_shorter [OF d] skip_ws_length [of r4] l3 l2 b
              have "2 * length (skip_ws r4) + 1 \<le> n" by simp
              from IHm [OF this]
              show ?thesis unfolding s
                by (simp only: L R Some kr option.case prod.case c list.case v sv vr d)
            qed
          qed
        qed
      qed
    qed
  qed
qed

lemma fuel_enough:
  "2 * length s \<le> n \<Longrightarrow> parse_value (n + k) s = parse_value n s"
proof (induction k)
  case 0
  show ?case by simp
next
  case (Suc k)
  from Suc.prems have "2 * length s \<le> n + k" by simp
  with fuel_stable [of "n + k"] have "parse_value (Suc (n + k)) s = parse_value (n + k) s" by blast
  with Suc show ?case by simp
qed

text \<open>The result of \<open>JSON_parse\<close> does not depend on the budget.\<close>

lemma JSON_parse_fuel:
  assumes "2 * length s + 2 \<le> n"
  shows "parse_value n (skip_ws s) = parse_value (2 * length s + 2) (skip_ws s)"
proof -
  from skip_ws_length [of s] have b: "2 * length (skip_ws s) \<le> 2 * length s + 2" by simp
  from assms obtain k where "n = 2 * length s + 2 + k" by (metis le_Suc_ex)
  with fuel_enough [OF b, of k] show ?thesis by simp
qed


end
